theory Spec2Isabelle
  imports Complex_Main "HOL-Library.Sublist" "HOL-Library.AList"
begin

section \<open>Python values\<close>

text \<open>
  A Python \<open>str\<close> is a sequence of Unicode code points, so it is modelled as a list of
  code points (\<open>len\<close> counts code points, and the currency sign U+20A6 is one element).
  \<open>py\<close> embeds an ASCII literal.
\<close>

type_synonym pystr = "nat list"

definition py :: "string \<Rightarrow> pystr" where
  "py s = map of_char s"

definition comma :: nat where "comma = 44"
definition percent :: nat where "percent = 37"
definition naira :: nat where "naira = 8358"
definition quote :: nat where "quote = 39"

text \<open>\<open>str.isspace\<close> for one code point: the 29 code points CPython treats as whitespace.\<close>

definition isspace :: "nat \<Rightarrow> bool" where
  "isspace c \<longleftrightarrow> c \<in> set [9, 10, 11, 12, 13, 28, 29, 30, 31, 32, 133, 160, 5760,
     8192, 8193, 8194, 8195, 8196, 8197, 8198, 8199, 8200, 8201, 8202,
     8232, 8233, 8239, 8287, 12288]"

definition strip :: "pystr \<Rightarrow> pystr" where
  "strip s = rev (dropWhile isspace (rev (dropWhile isspace s)))"

text \<open>
  \<open>str.lower\<close> on the ASCII letters. No code point above 127 lowers to a string that
  contains one of the letters of \<open>nan\<close>, \<open>null\<close>, \<open>none\<close>, so membership in that list
  (the only use of \<open>lower\<close> below) is decided as in CPython.
\<close>

definition lower :: "pystr \<Rightarrow> pystr" where
  "lower s = map (\<lambda>c. if 65 \<le> c \<and> c \<le> 90 then c + 32 else c) s"

text \<open>\<open>s.replace(c, '')\<close> for a one-character \<open>c\<close>.\<close>

definition remove_char :: "nat \<Rightarrow> pystr \<Rightarrow> pystr" where
  "remove_char c s = filter (\<lambda>x. x \<noteq> c) s"

text \<open>\<open>str(n)\<close> for a non-negative integer.\<close>

function str_of_nat :: "nat \<Rightarrow> pystr" where
  "str_of_nat n = (if n < 10 then [48 + n] else str_of_nat (n div 10) @ [48 + n mod 10])"
  by pat_completeness auto
termination
  by (relation "measure id") auto

declare str_of_nat.simps [simp del]

text \<open>
  A Python \<open>float\<close>: a finite value, an infinity or a NaN. Comparisons follow IEEE 754:
  every comparison with a NaN is false.
\<close>

datatype pyfloat = Finite real | PosInf | NegInf | NaN

fun flt_lt :: "pyfloat \<Rightarrow> pyfloat \<Rightarrow> bool" where
  "flt_lt (Finite a) (Finite b) = (a < b)"
| "flt_lt (Finite a) PosInf = True"
| "flt_lt NegInf (Finite b) = True"
| "flt_lt NegInf PosInf = True"
| "flt_lt _ _ = False"

definition flt_le :: "pyfloat \<Rightarrow> pyfloat \<Rightarrow> bool" where
  "flt_le a b \<longleftrightarrow> flt_lt a b \<or> (a = b \<and> a \<noteq> NaN)"

datatype date = Date nat nat nat

fun date_le :: "date \<Rightarrow> date \<Rightarrow> bool" where
  "date_le (Date y m d) (Date y' m' d') =
     (y < y' \<or> (y = y' \<and> (m < m' \<or> (m = m' \<and> d \<le> d'))))"

text \<open>
  A cell of a DataFrame: a string, a float or a date. An empty spreadsheet cell is the
  float NaN, as \<open>pd.read_excel\<close> delivers it.
\<close>

datatype cell = Str pystr | Flt pyfloat | Dat date

definition isna :: "cell \<Rightarrow> bool" where
  "isna c \<longleftrightarrow> c = Flt NaN"

text \<open>
  A DataFrame: the column labels, and the rows in order, each with its index label and
  its cells by column label. The index is the \<open>RangeIndex\<close> of \<open>pd.read_excel\<close>, whose labels
  are unique, so \<open>df.loc[idx, field] = v\<close> is the update of the row labelled \<open>idx\<close>.
  A row that lacks a cell for a column reads as NaN there.
\<close>

type_synonym row = "(pystr \<times> cell) list"

record frame =
  columns :: "pystr list"
  rows :: "(nat \<times> row) list"

definition get_cell :: "row \<Rightarrow> pystr \<Rightarrow> cell" where
  "get_cell r field = (case map_of r field of None \<Rightarrow> Flt NaN | Some c \<Rightarrow> c)"

text \<open>\<open>df[field] = df[field].map(f)\<close>: the column is rewritten cell by cell.\<close>

definition map_column :: "pystr \<Rightarrow> (cell \<Rightarrow> cell) \<Rightarrow> frame \<Rightarrow> frame" where
  "map_column field f df =
     df\<lparr>rows := map (\<lambda>(idx, r). (idx, AList.update field (f (get_cell r field)) r)) (rows df)\<rparr>"

text \<open>A method of the \<open>.str\<close> accessor: it yields NaN on a cell that is not a string.\<close>

definition str_method :: "(pystr \<Rightarrow> pystr) \<Rightarrow> cell \<Rightarrow> cell" where
  "str_method f c = (case c of Str s \<Rightarrow> Str (f s) | _ \<Rightarrow> Flt NaN)"

record ExcelValidationError =
  row_number :: nat
  column_name :: pystr
  error_type :: pystr
  error_message :: pystr
  raw_value :: pystr

section \<open>Library calls\<close>

text \<open>
  The pipeline calls into CPython, pandas and pydantic. What these calls compute is not part
  of the repository, so the model takes them as a parameter: the theorems hold for every
  behaviour of the library. \<open>None\<close> stands for the exception the call raises; \<open>read_excel\<close> maps the bytes of the
  file to the text of its exception or to the DataFrame of the first sheet. A regular
  expression of \<open>date_patterns\<close> is kept as its three parts (first group, separator, second
  group), each a sequence of \<open>\d{m,n}\<close>, a literal character or \<open>\s*\<close>; \<open>re_search\<close> yields the
  two groups of the match. \<open>date_of_float\<close> is pydantic's reading of a number as a date, and
  \<open>fail_text\<close> is the text of a library exception.
\<close>

datatype rx = Digits nat nat | Lit nat | Spaces

type_synonym regex = "rx list \<times> rx list \<times> rx list"

datatype libfail =
    BadFloat cell
  | BadDate pystr
  | Invalid "pystr list"

record pylib =
  read_excel :: "nat list \<Rightarrow> pystr + frame"
  py_float :: "pystr \<Rightarrow> pyfloat option"
  py_repr :: "cell \<Rightarrow> pystr"
  py_upper :: "pystr \<Rightarrow> pystr"
  re_search :: "regex \<Rightarrow> pystr \<Rightarrow> (pystr \<times> pystr) option"
  strptime :: "pystr \<Rightarrow> pystr \<Rightarrow> date option"
  date_of_float :: "pyfloat \<Rightarrow> date option"
  fail_text :: "libfail \<Rightarrow> pystr"
  str_of_error :: "ExcelValidationError \<Rightarrow> pystr"

text \<open>\<open>str(x)\<close> of a cell: a string is itself, NaN is \<open>nan\<close>, anything else is printed by the library.\<close>

definition cell_str :: "pylib \<Rightarrow> cell \<Rightarrow> pystr" where
  "cell_str L c =
     (case c of Str s \<Rightarrow> s
      | Flt f \<Rightarrow> (if f = NaN then py ''nan'' else py_repr L c)
      | Dat d \<Rightarrow> py_repr L c)"

section \<open>Field sanitizer: \<open>ExcelParser._clean_numeric_field\<close>\<close>

text \<open>
  Lines 252 to 258: the column is coerced to text, then commas, the currency sign and percent
  signs are removed and the text is trimmed. The column is overwritten at each step.
\<close>

definition clean_numeric_column :: "pylib \<Rightarrow> pystr \<Rightarrow> frame \<Rightarrow> frame" where
  "clean_numeric_column L field df =
     (let df = map_column field (\<lambda>c. Str (cell_str L c)) df;
          df = map_column field (str_method (remove_char comma)) df;
          df = map_column field (str_method (remove_char naira)) df;
          df = map_column field (str_method (remove_char percent)) df;
          df = map_column field (str_method strip) df
      in df)"

text \<open>
  Lines 262 to 275, one iteration on the cell \<open>value\<close> of the row labelled \<open>idx\<close>: the value
  stored in the cell and the errors appended. The column holds strings at this point, so
  \<open>pd.isna(value)\<close> is false and \<open>float(value)\<close> can only raise ValueError.
\<close>

definition invalid_numeric :: "pylib \<Rightarrow> nat \<Rightarrow> pystr \<Rightarrow> pystr \<Rightarrow> ExcelValidationError" where
  "invalid_numeric L idx field v =
     \<lparr>row_number = idx + 2,
      column_name = field,
      error_type = py ''invalid_numeric'',
      error_message = py ''Cannot convert '' @ [quote] @ v @ [quote] @ py '' to number'',
      raw_value = v\<rparr>"

definition convert_numeric_value ::
  "pylib \<Rightarrow> nat \<Rightarrow> pystr \<Rightarrow> pystr \<Rightarrow> pyfloat \<times> ExcelValidationError list" where
  "convert_numeric_value L idx field v =
     (if v = [] \<or> lower v \<in> set [py ''nan'', py ''null'', py ''none''] then (Finite 0, [])
      else (case py_float L v of
              Some x \<Rightarrow> (x, [])
            | None \<Rightarrow> (Finite 0, [invalid_numeric L idx field v])))"

fun numeric_loop ::
  "pylib \<Rightarrow> pystr \<Rightarrow> (nat \<times> row) list \<Rightarrow> (nat \<times> row) list \<times> ExcelValidationError list" where
  "numeric_loop L field [] = ([], [])"
| "numeric_loop L field ((idx, r) # rest) =
     (let (x, es) = convert_numeric_value L idx field (cell_str L (get_cell r field));
          (rest', es') = numeric_loop L field rest
      in ((idx, AList.update field (Flt x) r) # rest', es @ es'))"

definition clean_numeric_field ::
  "pylib \<Rightarrow> frame \<Rightarrow> pystr \<Rightarrow> frame \<times> ExcelValidationError list" where
  "clean_numeric_field L df field =
     (if field \<notin> set (columns df) then (df, [])
      else
        (let df = clean_numeric_column L field df;
             (rs, errors) = numeric_loop L field (rows df)
         in (df\<lparr>rows := rs\<rparr>, errors)))"

section \<open>\<open>ExcelParser._clean_and_validate_data\<close>\<close>

definition string_fields :: "pystr list" where
  "string_fields = [py ''policy_number'', py ''insured_name'']"

definition numeric_fields :: "pystr list" where
  "numeric_fields =
     [py ''sum_insured'', py ''premium'', py ''own_retention_ppn'',
      py ''own_retention_sum_insured'', py ''own_retention_premium'', py ''treaty_ppn'',
      py ''treaty_sum_insured'', py ''treaty_premium'']"

definition percentage_fields :: "pystr list" where
  "percentage_fields = [py ''own_retention_ppn'', py ''treaty_ppn'']"

text \<open>\<open>Series.replace('nan', '')\<close>: a cell equal to the string \<open>nan\<close> becomes the empty string.\<close>

definition replace_nan :: "cell \<Rightarrow> cell" where
  "replace_nan c = (if c = Str (py ''nan'') then Str [] else c)"

definition clean_string_field :: "pylib \<Rightarrow> frame \<Rightarrow> pystr \<Rightarrow> frame" where
  "clean_string_field L df field =
     (if field \<in> set (columns df) then
        (let df = map_column field (\<lambda>c. str_method strip (Str (cell_str L c))) df;
             df = map_column field replace_nan df
         in df)
      else df)"

definition clean_numeric_fields ::
  "pylib \<Rightarrow> pystr list \<Rightarrow> frame \<times> ExcelValidationError list
     \<Rightarrow> frame \<times> ExcelValidationError list" where
  "clean_numeric_fields L names acc =
     fold (\<lambda>field (df, errors).
             if field \<in> set (columns df) then
               (let (df', field_errors) = clean_numeric_field L df field
                in (df', errors @ field_errors))
             else (df, errors))
          names acc"

text \<open>
  \<open>(df[field] < 0) | (df[field] > 100)\<close> on one cell. The column holds floats here: it was
  rewritten by \<open>_clean_numeric_field\<close> under the same test \<open>field in df.columns\<close>.
\<close>

definition invalid_pct :: "cell \<Rightarrow> bool" where
  "invalid_pct c = (case c of Flt x \<Rightarrow> flt_lt x (Finite 0) \<or> flt_lt (Finite 100) x | _ \<Rightarrow> False)"

definition invalid_percentage :: "pylib \<Rightarrow> nat \<Rightarrow> pystr \<Rightarrow> cell \<Rightarrow> ExcelValidationError" where
  "invalid_percentage L idx field c =
     \<lparr>row_number = idx + 2,
      column_name = field,
      error_type = py ''invalid_percentage'',
      error_message = py ''Percentage must be between 0 and 100, got '' @ cell_str L c,
      raw_value = cell_str L c\<rparr>"

definition percentage_errors :: "pylib \<Rightarrow> frame \<Rightarrow> pystr \<Rightarrow> ExcelValidationError list" where
  "percentage_errors L df field =
     (if field \<in> set (columns df) then
        map (\<lambda>(idx, r). invalid_percentage L idx field (get_cell r field))
            (filter (\<lambda>(idx, r). invalid_pct (get_cell r field)) (rows df))
      else [])"

definition clean_and_validate_data :: "pylib \<Rightarrow> frame \<Rightarrow> frame \<times> ExcelValidationError list" where
  "clean_and_validate_data L df =
     (let df = fold (\<lambda>field df. clean_string_field L df field) string_fields df;
          (df, errors) = clean_numeric_fields L numeric_fields (df, []);
          errors = errors @ concat (map (percentage_errors L df) percentage_fields)
      in (df, errors))"

section \<open>Column mapper\<close>

record ExcelColumnMapping =
  policy_number_col :: pystr
  insured_name_col :: pystr
  sum_insured_col :: pystr
  premium_col :: pystr
  own_retention_ppn_col :: pystr
  own_retention_sum_col :: pystr
  own_retention_premium_col :: pystr
  treaty_ppn_col :: pystr
  treaty_sum_col :: pystr
  treaty_premium_col :: pystr
  period_of_insurance_col :: pystr
  start_date_col :: "pystr option"
  end_date_col :: "pystr option"

definition default_mapping :: ExcelColumnMapping where
  "default_mapping =
     \<lparr>policy_number_col = py ''POLICY NUMBER'',
      insured_name_col = py ''INSURED NAME'',
      sum_insured_col = py ''SUM INSURED'',
      premium_col = py ''PREMIUM'',
      own_retention_ppn_col = py ''OWN RETENTION %'',
      own_retention_sum_col = py ''OWN RETENTION SUM INSURED'',
      own_retention_premium_col = py ''OWN RETENTION PREMIUM'',
      treaty_ppn_col = py ''TREATY %'',
      treaty_sum_col = py ''TREATY SUM INSURED'',
      treaty_premium_col = py ''TREATY PREMIUM'',
      period_of_insurance_col = py ''PERIOD OF INSURANCE'',
      start_date_col = None,
      end_date_col = None\<rparr>"

text \<open>\<open>[c] if c else []\<close> for an optional column name: \<open>None\<close> and the empty string are false.\<close>

definition if_given :: "pystr option \<Rightarrow> pystr list" where
  "if_given c = (case c of None \<Rightarrow> [] | Some n \<Rightarrow> (if n = [] then [] else [n]))"

definition mapping_rules :: "ExcelColumnMapping \<Rightarrow> (pystr \<times> pystr list) list" where
  "mapping_rules m =
     [(py ''policy_number'',
         [policy_number_col m, py ''POLICY NO'', py ''POLICY_NUMBER'', py ''POLICY'']),
      (py ''insured_name'',
         [insured_name_col m, py ''INSURED'', py ''CUSTOMER_NAME'', py ''CLIENT_NAME'']),
      (py ''sum_insured'',
         [sum_insured_col m, py ''SUM_INSURED'', py ''COVERAGE_AMOUNT'', py ''INSURED_AMOUNT'']),
      (py ''premium'', [premium_col m, py ''PREMIUM_AMOUNT'', py ''ANNUAL_PREMIUM'']),
      (py ''own_retention_ppn'',
         [own_retention_ppn_col m, py ''OWN_RETENTION_PCT'', py ''RETENTION_%'']),
      (py ''own_retention_sum_insured'',
         [own_retention_sum_col m, py ''OWN_RETENTION_SUM'', py ''RETENTION_SUM'']),
      (py ''own_retention_premium'',
         [own_retention_premium_col m, py ''OWN_RETENTION_PREM'', py ''RETENTION_PREMIUM'']),
      (py ''treaty_ppn'', [treaty_ppn_col m, py ''TREATY_PCT'', py ''TREATY_%'']),
      (py ''treaty_sum_insured'', [treaty_sum_col m, py ''TREATY_SUM'', py ''TREATY_COVERAGE'']),
      (py ''treaty_premium'', [treaty_premium_col m, py ''TREATY_PREM'']),
      (py ''period_of_insurance'',
         [period_of_insurance_col m, py ''INSURANCE_PERIOD'', py ''POLICY_PERIOD'']),
      (py ''insurance_period_start_date'', if_given (start_date_col m)),
      (py ''insurance_period_end_date'', if_given (end_date_col m))]"

fun find_best_column_match :: "pylib \<Rightarrow> pystr list \<Rightarrow> pystr list \<Rightarrow> pystr option" where
  "find_best_column_match L excel_columns [] = None"
| "find_best_column_match L excel_columns (possible_name # possible_names) =
     (let u = py_upper L possible_name in
      if u \<in> set excel_columns then Some u
      else (case find (\<lambda>col. sublist u col \<or> sublist col u) excel_columns of
              Some col \<Rightarrow> Some col
            | None \<Rightarrow> find_best_column_match L excel_columns possible_names))"

text \<open>
  The result is a Python dict from detected header to field name: an assignment to a key
  that is present overwrites its value in place. \<open>if best_match\<close> is false for \<open>None\<close> and
  for the empty string.
\<close>

definition create_column_mapping ::
  "pylib \<Rightarrow> pystr list \<Rightarrow> ExcelColumnMapping \<Rightarrow> (pystr \<times> pystr) list" where
  "create_column_mapping L excel_columns mapping =
     fold (\<lambda>(db_field, possible_names) column_map.
             (case find_best_column_match L excel_columns possible_names of
                None \<Rightarrow> column_map
              | Some best_match \<Rightarrow>
                  (if best_match = [] then column_map
                   else AList.update best_match db_field column_map)))
          (mapping_rules mapping) []"

definition required_fields :: "pystr list" where
  "required_fields =
     [py ''policy_number'', py ''insured_name'', py ''sum_insured'', py ''premium'',
      py ''own_retention_ppn'', py ''own_retention_sum_insured'', py ''own_retention_premium'',
      py ''treaty_ppn'', py ''treaty_sum_insured'', py ''treaty_premium'']"

definition validate_required_columns :: "(pystr \<times> pystr) list \<Rightarrow> pystr list" where
  "validate_required_columns column_map =
     (let mapped_fields = set (map snd column_map);
          missing_fields = filter (\<lambda>field. field \<notin> mapped_fields) required_fields;
          has_period = (py ''period_of_insurance'' \<in> mapped_fields);
          has_separate_dates =
            (py ''insurance_period_start_date'' \<in> mapped_fields \<and>
             py ''insurance_period_end_date'' \<in> mapped_fields)
      in if \<not> has_period \<and> \<not> has_separate_dates
         then missing_fields @ [py ''insurance period dates'']
         else missing_fields)"

section \<open>Period parser\<close>

definition date_patterns :: "regex list" where
  "date_patterns =
     [([Digits 1 2, Lit 47, Digits 1 2, Lit 47, Digits 4 4], [Spaces, Lit 45, Spaces],
       [Digits 1 2, Lit 47, Digits 1 2, Lit 47, Digits 4 4]),
      ([Digits 4 4, Lit 45, Digits 1 2, Lit 45, Digits 1 2], [Spaces, Lit 45, Spaces],
       [Digits 4 4, Lit 45, Digits 1 2, Lit 45, Digits 1 2]),
      ([Digits 1 2, Lit 45, Digits 1 2, Lit 45, Digits 4 4], [Spaces, Lit 45, Spaces],
       [Digits 1 2, Lit 45, Digits 1 2, Lit 45, Digits 4 4]),
      ([Digits 1 2, Lit 46, Digits 1 2, Lit 46, Digits 4 4], [Spaces, Lit 45, Spaces],
       [Digits 1 2, Lit 46, Digits 1 2, Lit 46, Digits 4 4])]"

definition date_formats :: "pystr list" where
  "date_formats =
     [py ''%d/%m/%Y'', py ''%m/%d/%Y'', py ''%Y-%m-%d'',
      py ''%d-%m-%Y'', py ''%d.%m.%Y'', py ''%Y/%m/%d'']"

fun try_formats :: "pylib \<Rightarrow> pystr \<Rightarrow> pystr list \<Rightarrow> date option" where
  "try_formats L date_str [] = None"
| "try_formats L date_str (fmt # fmts) =
     (case strptime L date_str fmt of
        Some d \<Rightarrow> Some d
      | None \<Rightarrow> try_formats L date_str fmts)"

definition parse_single_date :: "pylib \<Rightarrow> pystr \<Rightarrow> date option" where
  "parse_single_date L date_str = try_formats L (strip date_str) date_formats"

text \<open>
  The loop over the patterns. A date object is always true, so \<open>if start_date and end_date\<close>
  tests that neither is \<open>None\<close>; when the test fails the loop goes on to the next pattern.
\<close>

fun try_patterns :: "pylib \<Rightarrow> pystr \<Rightarrow> regex list \<Rightarrow> pystr + date \<times> date" where
  "try_patterns L period_str [] = Inl (py ''Cannot parse insurance period: '' @ period_str)"
| "try_patterns L period_str (pattern # patterns) =
     (case re_search L pattern period_str of
        None \<Rightarrow> try_patterns L period_str patterns
      | Some (start_str, end_str) \<Rightarrow>
          (case (parse_single_date L start_str, parse_single_date L end_str) of
             (Some start_date, Some end_date) \<Rightarrow> Inr (start_date, end_date)
           | _ \<Rightarrow> try_patterns L period_str patterns))"

definition parse_insurance_period :: "pylib \<Rightarrow> pystr \<Rightarrow> pystr + date \<times> date" where
  "parse_insurance_period L period_str = try_patterns L (strip period_str) date_patterns"

definition invalid_date_format :: "pylib \<Rightarrow> nat \<Rightarrow> cell \<Rightarrow> pystr \<Rightarrow> ExcelValidationError" where
  "invalid_date_format L idx period_value e =
     \<lparr>row_number = idx + 2,
      column_name = py ''period_of_insurance'',
      error_type = py ''invalid_date_format'',
      error_message = py ''Cannot parse date range: '' @ e,
      raw_value = cell_str L period_value\<rparr>"

fun period_loop ::
  "pylib \<Rightarrow> (nat \<times> row) list \<Rightarrow> (nat \<times> row) list \<times> ExcelValidationError list" where
  "period_loop L [] = ([], [])"
| "period_loop L ((idx, r) # rest) =
     (let period_value = get_cell r (py ''period_of_insurance'');
          (start_date, end_date, es) =
            (case parse_insurance_period L (cell_str L period_value) of
               Inr (s, e) \<Rightarrow> (s, e, [])
             | Inl e \<Rightarrow> (Date 2024 1 1, Date 2024 12 31, [invalid_date_format L idx period_value e]));
          r = AList.update (py ''insurance_period_start_date'') (Dat start_date) r;
          r = AList.update (py ''insurance_period_end_date'') (Dat end_date) r;
          r = AList.delete (py ''period_of_insurance'') r;
          (rest', es') = period_loop L rest
      in ((idx, r) # rest', es @ es'))"

definition add_column :: "pystr \<Rightarrow> pystr list \<Rightarrow> pystr list" where
  "add_column name cols = (if name \<in> set cols then cols else cols @ [name])"

definition transform_period_column :: "pylib \<Rightarrow> frame \<Rightarrow> frame \<times> ExcelValidationError list" where
  "transform_period_column L df =
     (if py ''period_of_insurance'' \<notin> set (columns df) then (df, [])
      else
        (let (rs, errors) = period_loop L (rows df);
             cols = add_column (py ''insurance_period_start_date'') (columns df);
             cols = add_column (py ''insurance_period_end_date'') cols;
             cols = filter (\<lambda>c. c \<noteq> py ''period_of_insurance'') cols
         in (\<lparr>columns = cols, rows = rs\<rparr>, errors)))"

section \<open>\<open>ExcelParser.parse_excel_file\<close>\<close>

definition rename_columns :: "(pystr \<Rightarrow> pystr) \<Rightarrow> frame \<Rightarrow> frame" where
  "rename_columns g df =
     \<lparr>columns = map g (columns df),
      rows = map (\<lambda>(idx, r). (idx, map (\<lambda>(k, c). (g k, c)) r)) (rows df)\<rparr>"

definition rename_label :: "(pystr \<times> pystr) list \<Rightarrow> pystr \<Rightarrow> pystr" where
  "rename_label column_map h = (case map_of column_map h of None \<Rightarrow> h | Some field \<Rightarrow> field)"

definition dropna :: "pystr list \<Rightarrow> frame \<Rightarrow> frame" where
  "dropna names df =
     df\<lparr>rows := filter (\<lambda>(idx, r). list_all (\<lambda>field. \<not> isna (get_cell r field)) names) (rows df)\<rparr>"

text \<open>The \<open>repr\<close> of a list of strings that contain no quote and no backslash.\<close>

fun join :: "pystr \<Rightarrow> pystr list \<Rightarrow> pystr" where
  "join sep [] = []"
| "join sep [x] = x"
| "join sep (x # y # ys) = x @ sep @ join sep (y # ys)"

definition repr_list :: "pystr list \<Rightarrow> pystr" where
  "repr_list xs = py ''['' @ join (py '', '') (map (\<lambda>x. [quote] @ x @ [quote]) xs) @ py '']''"

text \<open>
  The body of the \<open>try\<close> of \<open>parse_excel_file\<close> (\<open>Inl\<close> is the text of the exception raised in
  it), and the function itself, whose handler raises \<open>ValueError\<close> with the prefixed text.
\<close>

definition parse_excel_body ::
  "pylib \<Rightarrow> nat list \<Rightarrow> ExcelColumnMapping \<Rightarrow> pystr + frame \<times> ExcelValidationError list" where
  "parse_excel_body L file_content mapping =
     (case read_excel L file_content of
        Inl e \<Rightarrow> Inl e
      | Inr df \<Rightarrow>
          (let df = rename_columns (\<lambda>h. py_upper L (strip h)) df;
               column_map = create_column_mapping L (columns df) mapping;
               missing_columns = validate_required_columns column_map
           in if missing_columns \<noteq> []
              then Inl (py ''Missing required columns: '' @ repr_list missing_columns)
              else
                (let df = rename_columns (rename_label column_map) df;
                     (df, validation_errors) = clean_and_validate_data L df;
                     errors = validation_errors;
                     (df, errors) =
                       (if py ''period_of_insurance'' \<in> set (columns df)
                        then (let (df', date_errors) = transform_period_column L df
                              in (df', errors @ date_errors))
                        else (df, errors));
                     valid_df = dropna [py ''policy_number'', py ''insured_name''] df
                 in Inr (valid_df, errors))))"

definition parse_excel_file ::
  "pylib \<Rightarrow> nat list \<Rightarrow> pystr \<Rightarrow> ExcelColumnMapping option
     \<Rightarrow> pystr + frame \<times> ExcelValidationError list" where
  "parse_excel_file L file_content filename column_mapping =
     (let mapping = (case column_mapping of None \<Rightarrow> default_mapping | Some m \<Rightarrow> m)
      in case parse_excel_body L file_content mapping of
           Inl e \<Rightarrow> Inl (py ''Excel parsing failed: '' @ e)
         | Inr res \<Rightarrow> Inr res)"

section \<open>Row validator: \<open>InsurancePolicyBase\<close> and \<open>_convert_row_to_policy\<close>\<close>

record InsurancePolicyCreate =
  policy_number :: pystr
  insured_name :: pystr
  sum_insured :: pyfloat
  premium :: pyfloat
  own_retention_ppn :: pyfloat
  own_retention_sum_insured :: pyfloat
  own_retention_premium :: pyfloat
  treaty_ppn :: pyfloat
  treaty_sum_insured :: pyfloat
  treaty_premium :: pyfloat
  insurance_period_start_date :: date
  insurance_period_end_date :: date

text \<open>The constraints of \<open>Field(...)\<close>; a comparison with NaN is false, so NaN meets none.\<close>

definition gt0 :: "pyfloat \<Rightarrow> bool" where
  "gt0 x = flt_lt (Finite 0) x"

definition ge0 :: "pyfloat \<Rightarrow> bool" where
  "ge0 x = flt_le (Finite 0) x"

definition le100 :: "pyfloat \<Rightarrow> bool" where
  "le100 x = flt_le x (Finite 100)"

text \<open>\<open>validate_percentages\<close>: \<open>if not 0 <= v <= 100: raise\<close>.\<close>

definition validate_percentages :: "pyfloat \<Rightarrow> bool" where
  "validate_percentages v = (flt_le (Finite 0) v \<and> flt_le v (Finite 100))"

text \<open>
  pydantic's reading of the value given for a \<open>date\<close> field: a date is taken as it is, a
  number is read by the library, a missing value (\<open>None\<close>) is refused. A string does
  not get here: \<open>_convert_row_to_policy\<close> parses it before.
\<close>

definition date_field :: "pylib \<Rightarrow> cell option \<Rightarrow> date option" where
  "date_field L v =
     (case v of
        None \<Rightarrow> None
      | Some (Dat d) \<Rightarrow> Some d
      | Some (Flt x) \<Rightarrow> date_of_float L x
      | Some (Str s) \<Rightarrow> None)"

text \<open>
  \<open>InsurancePolicyCreate(**policy_data)\<close>: every field is checked and the failing ones are
  collected; the root validators run only when no field failed (\<open>skip_on_failure\<close>).
  \<open>validate_period_dates\<close> refuses \<open>end_date <= start_date\<close> (dates are always true);
  \<open>validate_financial_consistency\<close> computes a difference and does nothing with it.
\<close>

definition failing :: "pystr \<Rightarrow> bool \<Rightarrow> pystr list" where
  "failing name ok = (if ok then [] else [name])"

definition new_policy ::
  "pylib \<Rightarrow> pystr \<Rightarrow> pystr \<Rightarrow> pyfloat list \<Rightarrow> cell option \<Rightarrow> cell option
     \<Rightarrow> libfail + InsurancePolicyCreate" where
  "new_policy L pn nm xs sd ed =
     (case xs of
        [si, pr, orp, ors, orpr, tp, ts, tpr] \<Rightarrow>
          (let field_errors =
                 failing (py ''policy_number'') (1 \<le> length pn \<and> length pn \<le> 50)
               @ failing (py ''insured_name'') (1 \<le> length nm \<and> length nm \<le> 200)
               @ failing (py ''sum_insured'') (gt0 si)
               @ failing (py ''premium'') (gt0 pr)
               @ failing (py ''own_retention_ppn'') (ge0 orp \<and> le100 orp \<and> validate_percentages orp)
               @ failing (py ''own_retention_sum_insured'') (ge0 ors)
               @ failing (py ''own_retention_premium'') (ge0 orpr)
               @ failing (py ''treaty_ppn'') (ge0 tp \<and> le100 tp \<and> validate_percentages tp)
               @ failing (py ''treaty_sum_insured'') (ge0 ts)
               @ failing (py ''treaty_premium'') (ge0 tpr)
               @ failing (py ''insurance_period_start_date'') (date_field L sd \<noteq> None)
               @ failing (py ''insurance_period_end_date'') (date_field L ed \<noteq> None)
           in if field_errors \<noteq> [] then Inl (Invalid field_errors)
              else (case (date_field L sd, date_field L ed) of
                      (Some start_date, Some end_date) \<Rightarrow>
                        (if date_le end_date start_date then Inl (Invalid [py ''__root__''])
                         else Inr \<lparr>policy_number = pn, insured_name = nm, sum_insured = si,
                                   premium = pr, own_retention_ppn = orp,
                                   own_retention_sum_insured = ors, own_retention_premium = orpr,
                                   treaty_ppn = tp, treaty_sum_insured = ts, treaty_premium = tpr,
                                   insurance_period_start_date = start_date,
                                   insurance_period_end_date = end_date\<rparr>)
                    | _ \<Rightarrow> Inl (Invalid [])))
      | _ \<Rightarrow> Inl (Invalid []))"

text \<open>\<open>float(row.get(field, 0))\<close>: \<open>Inl\<close> is the ValueError or TypeError of \<open>float\<close>.\<close>

definition float_of_cell :: "pylib \<Rightarrow> row \<Rightarrow> pystr \<Rightarrow> libfail + pyfloat" where
  "float_of_cell L r field =
     (case map_of r field of
        None \<Rightarrow> Inr (Finite 0)
      | Some (Flt x) \<Rightarrow> Inr x
      | Some (Str s) \<Rightarrow> (case py_float L s of Some x \<Rightarrow> Inr x | None \<Rightarrow> Inl (BadFloat (Str s)))
      | Some (Dat d) \<Rightarrow> Inl (BadFloat (Dat d)))"

fun floats_of_cells :: "pylib \<Rightarrow> row \<Rightarrow> pystr list \<Rightarrow> libfail + pyfloat list" where
  "floats_of_cells L r [] = Inr []"
| "floats_of_cells L r (field # rest) =
     (case float_of_cell L r field of
        Inl e \<Rightarrow> Inl e
      | Inr x \<Rightarrow> (case floats_of_cells L r rest of Inl e \<Rightarrow> Inl e | Inr xs \<Rightarrow> Inr (x # xs)))"

text \<open>\<open>str(row.get(field, '')).strip()\<close>.\<close>

definition text_of_cell :: "pylib \<Rightarrow> row \<Rightarrow> pystr \<Rightarrow> pystr" where
  "text_of_cell L r field =
     strip (case map_of r field of None \<Rightarrow> [] | Some c \<Rightarrow> cell_str L c)"

text \<open>Lines 520 to 525: a date given as a string is parsed with \<open>%Y-%m-%d\<close>.\<close>

definition date_of_cell :: "pylib \<Rightarrow> cell option \<Rightarrow> libfail + cell option" where
  "date_of_cell L v =
     (case v of
        Some (Str s) \<Rightarrow>
          (case strptime L s (py ''%Y-%m-%d'') of
             Some d \<Rightarrow> Inr (Some (Dat d))
           | None \<Rightarrow> Inl (BadDate s))
      | _ \<Rightarrow> Inr v)"

text \<open>
  The body of the \<open>try\<close> of \<open>_convert_row_to_policy\<close>, in the order of the source: the dict is
  built (the eight \<open>float\<close> calls may raise), the two required fields are tested, the dates
  are parsed, the model is constructed. \<open>Inl\<close> is the text of the exception.
\<close>

definition convert_row_body :: "pylib \<Rightarrow> row \<Rightarrow> pystr + InsurancePolicyCreate" where
  "convert_row_body L r =
     (let pn = text_of_cell L r (py ''policy_number'');
          nm = text_of_cell L r (py ''insured_name'')
      in case floats_of_cells L r numeric_fields of
           Inl e \<Rightarrow> Inl (fail_text L e)
         | Inr xs \<Rightarrow>
             (if pn = [] then Inl (py ''Policy number is required'')
              else if nm = [] then Inl (py ''Insured name is required'')
              else (case date_of_cell L (map_of r (py ''insurance_period_start_date'')) of
                      Inl e \<Rightarrow> Inl (fail_text L e)
                    | Inr sd \<Rightarrow>
                        (case date_of_cell L (map_of r (py ''insurance_period_end_date'')) of
                           Inl e \<Rightarrow> Inl (fail_text L e)
                         | Inr ed \<Rightarrow>
                             (case new_policy L pn nm xs sd ed of
                                Inl e \<Rightarrow> Inl (fail_text L e)
                              | Inr p \<Rightarrow> Inr p)))))"

definition convert_row_to_policy :: "pylib \<Rightarrow> row \<Rightarrow> pystr + InsurancePolicyCreate" where
  "convert_row_to_policy L r =
     (case convert_row_body L r of
        Inl e \<Rightarrow> Inl (py ''Data conversion error: '' @ e)
      | Inr p \<Rightarrow> Inr p)"

section \<open>Persistence: \<open>InsurancePolicyRepository.bulk_create_policies\<close>\<close>

text \<open>
  The collaborators of the pipeline, as an oracle: for each call that can raise, the text
  of its exception or \<open>None\<close> when it returns. \<open>session_open_error\<close> is the entry to the session
  of a batch (numbered from 0), \<open>db_model_error\<close> the construction of the database object of
  one policy, \<open>commit_error\<close> the commit and the exit of the session; \<open>audit_repository_error\<close>
  is asked once in the body and once in the handler of \<open>ingest_excel_file\<close>.
\<close>

record DataIngestionLog =
  log_filename :: pystr
  file_size_bytes :: nat
  rows_processed :: nat
  rows_successful :: nat
  rows_failed :: nat
  log_processing_time_ms :: real
  log_status :: pystr
  error_details :: "pystr option"

record env =
  policy_repository_error :: "pystr option"
  audit_repository_error :: "nat \<Rightarrow> pystr option"
  session_open_error :: "nat \<Rightarrow> pystr option"
  db_model_error :: "InsurancePolicyCreate \<Rightarrow> pystr option"
  commit_error :: "nat \<Rightarrow> InsurancePolicyCreate list \<Rightarrow> pystr option"
  log_data_ingestion_error :: "DataIngestionLog \<Rightarrow> pystr option"
  elapsed_ms :: real

text \<open>The inner loop of a batch: the database objects built, and the failures counted.\<close>

fun db_policies_of ::
  "env \<Rightarrow> InsurancePolicyCreate list \<Rightarrow> InsurancePolicyCreate list \<times> nat \<times> pystr list" where
  "db_policies_of E [] = ([], 0, [])"
| "db_policies_of E (policy_data # rest) =
     (let (ps, n, msgs) = db_policies_of E rest
      in case db_model_error E policy_data of
           None \<Rightarrow> (policy_data # ps, n, msgs)
         | Some e \<Rightarrow>
             (ps, Suc n, (py ''Policy '' @ policy_number policy_data @ py '': '' @ e) # msgs))"

definition batch_error :: "nat \<Rightarrow> pystr \<Rightarrow> pystr" where
  "batch_error k e = py ''Batch '' @ str_of_nat (k + 1) @ py '': '' @ e"

definition create_batch ::
  "env \<Rightarrow> nat \<Rightarrow> InsurancePolicyCreate list \<Rightarrow> nat \<times> nat \<times> pystr list
     \<Rightarrow> nat \<times> nat \<times> pystr list" where
  "create_batch E k batch acc =
     (case acc of (successful_count, failed_count, error_messages) \<Rightarrow>
        (case session_open_error E k of
           Some e \<Rightarrow>
             (successful_count, failed_count + length batch, error_messages @ [batch_error k e])
         | None \<Rightarrow>
             (case db_policies_of E batch of (db_policies, n, msgs) \<Rightarrow>
                (case commit_error E k db_policies of
                   None \<Rightarrow>
                     (successful_count + length db_policies, failed_count + n,
                      error_messages @ msgs)
                 | Some e \<Rightarrow>
                     (successful_count, failed_count + n + length batch,
                      error_messages @ msgs @ [batch_error k e])))))"

text \<open>
  \<open>range(0, len(policies_data), batch_size)\<close> raises ValueError for a step of zero; the
  request model keeps \<open>batch_size\<close> between 100 and 10000, so it is never negative.
  Batch \<open>k\<close> is \<open>policies_data[k * batch_size : (k + 1) * batch_size]\<close>.
\<close>

definition bulk_create_policies ::
  "env \<Rightarrow> InsurancePolicyCreate list \<Rightarrow> nat \<Rightarrow> pystr + nat \<times> nat \<times> pystr list" where
  "bulk_create_policies E policies_data batch_size =
     (if batch_size = 0 then Inl (py ''range() arg 3 must not be zero'')
      else Inr (fold (\<lambda>k. create_batch E k (take batch_size (drop (k * batch_size) policies_data)))
                  [0 ..< (length policies_data + batch_size - 1) div batch_size]
                  (0, 0, [])))"

section \<open>Ingestion pipeline: \<open>InsuranceDataIngestionPipeline.ingest_excel_file\<close>\<close>

record ExcelIngestionRequest =
  validate_schema :: bool
  skip_duplicates :: bool
  batch_size :: nat

record ExcelIngestionResponse =
  ingestion_id :: pystr
  filename :: pystr
  total_rows :: nat
  processed_rows :: nat
  failed_rows :: nat
  processing_time_ms :: real
  status :: pystr
  errors :: "pystr list"
  warnings :: "pystr list"

text \<open>Lines 403 to 408: the rows that convert, and one error string for each row that does not.\<close>

fun convert_rows ::
  "pylib \<Rightarrow> (nat \<times> row) list \<Rightarrow> InsurancePolicyCreate list \<times> pystr list" where
  "convert_rows L [] = ([], [])"
| "convert_rows L ((idx, r) # rest) =
     (let (policies_data, conversion_errors) = convert_rows L rest
      in case convert_row_to_policy L r of
           Inr policy_data \<Rightarrow> (policy_data # policies_data, conversion_errors)
         | Inl e \<Rightarrow>
             (policies_data, (py ''Row '' @ str_of_nat (idx + 2) @ py '': '' @ e) # conversion_errors))"

text \<open>
  \<open>total_errors\<close> holds the \<open>ExcelValidationError\<close> objects of the parser (\<open>Inl\<close>) and the
  strings of the conversion and of the store (\<open>Inr\<close>). \<open>"; ".join\<close> raises TypeError at the
  first item that is not a string.
\<close>

fun first_object :: "nat \<Rightarrow> (ExcelValidationError + pystr) list \<Rightarrow> nat option" where
  "first_object i [] = None"
| "first_object i (Inl v # es) = Some i"
| "first_object i (Inr s # es) = first_object (Suc i) es"

definition join_errors :: "(ExcelValidationError + pystr) list \<Rightarrow> pystr + pystr" where
  "join_errors total_errors =
     (case first_object 0 total_errors of
        Some i \<Rightarrow>
          Inl (py ''sequence item '' @ str_of_nat i
               @ py '': expected str instance, ExcelValidationError found'')
      | None \<Rightarrow> Inr (join (py ''; '') (map (\<lambda>e. case e of Inl v \<Rightarrow> [] | Inr s \<Rightarrow> s) total_errors)))"

definition status_of :: "nat \<Rightarrow> nat \<Rightarrow> pystr" where
  "status_of successful_count failed_count =
     (if failed_count = 0 then py ''success''
      else if successful_count > 0 then py ''partial''
      else py ''failed'')"

text \<open>
  The outcome computed by lines 392 to 427, before the audit trail is written: \<open>Inl\<close> is the
  text of an exception raised so far, with the lists already handed to the store.
\<close>

record outcome =
  policies_data :: "InsurancePolicyCreate list"
  successful_count :: nat
  failed_count :: nat
  computed_total_rows :: nat
  total_errors :: "(ExcelValidationError + pystr) list"
  computed_status :: pystr

definition compute_outcome ::
  "pylib \<Rightarrow> env \<Rightarrow> nat list \<Rightarrow> pystr \<Rightarrow> ExcelIngestionRequest
     \<Rightarrow> InsurancePolicyCreate list list \<times> (pystr + outcome)" where
  "compute_outcome L E file_content fname request =
     (case policy_repository_error E of
        Some e \<Rightarrow> ([], Inl e)
      | None \<Rightarrow>
     (case audit_repository_error E 0 of
        Some e \<Rightarrow> ([], Inl e)
      | None \<Rightarrow>
     (case parse_excel_file L file_content fname None of
        Inl e \<Rightarrow> ([], Inl e)
      | Inr (df, parsing_errors) \<Rightarrow>
          (if rows df = [] \<or> columns df = [] then ([], Inl (py ''No valid data found in Excel file''))
           else
             (case convert_rows L (rows df) of (ps, conversion_errors) \<Rightarrow>
                (case bulk_create_policies E ps (batch_size request) of
                   Inl e \<Rightarrow> ([ps], Inl e)
                 | Inr (ok, bad, db_errors) \<Rightarrow>
                     ([ps],
                      Inr \<lparr>policies_data = ps,
                           successful_count = ok,
                           failed_count = bad,
                           computed_total_rows = length (rows df),
                           total_errors =
                             map Inl parsing_errors @ map Inr conversion_errors @ map Inr db_errors,
                           computed_status = status_of ok bad\<rparr>)))))))"

text \<open>
  Lines 429 to 456: the audit entry is written inside the \<open>try\<close>; its argument
  \<open>"; ".join(total_errors) if total_errors else None\<close> is evaluated first.
\<close>

definition success_entry ::
  "env \<Rightarrow> nat list \<Rightarrow> pystr \<Rightarrow> outcome \<Rightarrow> pystr option \<Rightarrow> DataIngestionLog" where
  "success_entry E file_content fname out details =
     \<lparr>log_filename = fname,
      file_size_bytes = length file_content,
      rows_processed = computed_total_rows out,
      rows_successful = successful_count out,
      rows_failed = failed_count out,
      log_processing_time_ms = elapsed_ms E,
      log_status = computed_status out,
      error_details = details\<rparr>"

definition success_response :: "pylib \<Rightarrow> env \<Rightarrow> pystr \<Rightarrow> outcome \<Rightarrow> ExcelIngestionResponse" where
  "success_response L E fname out =
     \<lparr>ingestion_id = py ''12345678-1234-1234-1234-123456789012'',
      filename = fname,
      total_rows = computed_total_rows out,
      processed_rows = successful_count out,
      failed_rows = failed_count out,
      processing_time_ms = elapsed_ms E,
      status = computed_status out,
      errors = map (\<lambda>e. case e of Inl v \<Rightarrow> str_of_error L v | Inr s \<Rightarrow> s) (total_errors out),
      warnings = []\<rparr>"

definition log_outcome ::
  "env \<Rightarrow> nat list \<Rightarrow> pystr \<Rightarrow> outcome \<Rightarrow> pystr + DataIngestionLog" where
  "log_outcome E file_content fname out =
     (case (if total_errors out = [] then Inr None
            else (case join_errors (total_errors out) of
                    Inl e \<Rightarrow> Inl e
                  | Inr text \<Rightarrow> Inr (Some text))) of
        Inl e \<Rightarrow> Inl e
      | Inr details \<Rightarrow>
          (let entry = success_entry E file_content fname out details
           in case log_data_ingestion_error E entry of
                Some e \<Rightarrow> Inl e
              | None \<Rightarrow> Inr entry))"

text \<open>Lines 458 to 488: the handler of the outer \<open>try\<close>.\<close>

definition failure_entry :: "env \<Rightarrow> nat list \<Rightarrow> pystr \<Rightarrow> pystr \<Rightarrow> DataIngestionLog" where
  "failure_entry E file_content fname e =
     \<lparr>log_filename = fname,
      file_size_bytes = length file_content,
      rows_processed = 0,
      rows_successful = 0,
      rows_failed = 0,
      log_processing_time_ms = elapsed_ms E,
      log_status = py ''failed'',
      error_details = Some e\<rparr>"

definition failure_response :: "env \<Rightarrow> pystr \<Rightarrow> pystr \<Rightarrow> ExcelIngestionResponse" where
  "failure_response E fname e =
     \<lparr>ingestion_id = py ''00000000-0000-0000-0000-000000000000'',
      filename = fname,
      total_rows = 0,
      processed_rows = 0,
      failed_rows = 0,
      processing_time_ms = elapsed_ms E,
      status = py ''failed'',
      errors = [e],
      warnings = []\<rparr>"

definition log_failure :: "env \<Rightarrow> nat list \<Rightarrow> pystr \<Rightarrow> pystr \<Rightarrow> DataIngestionLog list" where
  "log_failure E file_content fname e =
     (case audit_repository_error E 1 of
        Some audit_error \<Rightarrow> []
      | None \<Rightarrow>
          (let entry = failure_entry E file_content fname e
           in case log_data_ingestion_error E entry of
                Some audit_error \<Rightarrow> []
              | None \<Rightarrow> [entry]))"

text \<open>
  A run of \<open>ingest_excel_file\<close>: the report returned, the lists handed to
  \<open>bulk_create_policies\<close>, and the audit entries written.
\<close>

record run =
  response :: ExcelIngestionResponse
  store_calls :: "InsurancePolicyCreate list list"
  audit_trail :: "DataIngestionLog list"

text \<open>The body of the outer \<open>try\<close>: the lists handed to the store so far, and its result.\<close>

definition ingest_try ::
  "pylib \<Rightarrow> env \<Rightarrow> nat list \<Rightarrow> pystr \<Rightarrow> ExcelIngestionRequest
     \<Rightarrow> InsurancePolicyCreate list list \<times> (pystr + ExcelIngestionResponse \<times> DataIngestionLog)" where
  "ingest_try L E file_content fname request =
     (case compute_outcome L E file_content fname request of (calls, res) \<Rightarrow>
        (calls,
         (case res of
            Inl e \<Rightarrow> Inl e
          | Inr out \<Rightarrow>
              (case log_outcome E file_content fname out of
                 Inl e \<Rightarrow> Inl e
               | Inr entry \<Rightarrow> Inr (success_response L E fname out, entry)))))"

definition ingest_excel_file ::
  "pylib \<Rightarrow> env \<Rightarrow> nat list \<Rightarrow> pystr \<Rightarrow> ExcelIngestionRequest \<Rightarrow> run" where
  "ingest_excel_file L E file_content fname request =
     (case ingest_try L E file_content fname request of
        (calls, Inr (resp, entry)) \<Rightarrow>
          \<lparr>response = resp, store_calls = calls, audit_trail = [entry]\<rparr>
      | (calls, Inl e) \<Rightarrow>
          \<lparr>response = failure_response E fname e,
           store_calls = calls,
           audit_trail = log_failure E file_content fname e\<rparr>)"

section \<open>A concrete library and store for the examples\<close>

text \<open>
  The examples run the pipeline on ASCII sheets with the following definitions for the
  library calls. They follow CPython on the arguments the examples use: decimal literals
  without exponent for \<open>float\<close>, the ASCII letters for \<open>upper\<close>, ASCII digits for \<open>\d\<close>, the
  directives \<open>%d\<close>, \<open>%m\<close>, \<open>%Y\<close> between literal characters for \<open>strptime\<close>, integer-valued
  floats for \<open>str\<close>.
\<close>

definition is_digit :: "nat \<Rightarrow> bool" where
  "is_digit c \<longleftrightarrow> 48 \<le> c \<and> c \<le> 57"

definition digits_value :: "pystr \<Rightarrow> nat" where
  "digits_value s = foldl (\<lambda>a c. 10 * a + (c - 48)) 0 s"

definition float_literal :: "pystr \<Rightarrow> pyfloat option" where
  "float_literal s =
     (let (neg, body) =
            (case s of
               [] \<Rightarrow> (False, [])
             | c # cs \<Rightarrow> if c = 45 then (True, cs) else if c = 43 then (False, cs) else (False, s));
          ip = takeWhile is_digit body;
          rest = dropWhile is_digit body;
          fp = (case rest of
                  [] \<Rightarrow> Some []
                | c # cs \<Rightarrow> if c = 46 \<and> list_all is_digit cs then Some cs else None)
      in case fp of
           None \<Rightarrow> None
         | Some f \<Rightarrow>
             (if ip = [] \<and> f = [] then None
              else (let v = real (digits_value ip) + real (digits_value f) / 10 ^ length f
                    in Some (Finite (if neg then - v else v)))))"

definition ascii_upper :: "pystr \<Rightarrow> pystr" where
  "ascii_upper s = map (\<lambda>c. if 97 \<le> c \<and> c \<le> 122 then c - 32 else c) s"

text \<open>
  A backtracking matcher: \<open>rx_rests\<close> lists the rests of the text after each way an item can
  match at its start, the greedy way first; \<open>re_match\<close> takes the first way the three parts
  match in sequence, and \<open>search_from\<close> the leftmost start.
\<close>

fun rx_rests :: "rx \<Rightarrow> pystr \<Rightarrow> pystr list" where
  "rx_rests (Lit c) s = (case s of [] \<Rightarrow> [] | x # xs \<Rightarrow> if x = c then [xs] else [])"
| "rx_rests (Digits lo hi) s =
     (let n = min hi (length (takeWhile is_digit s))
      in map (\<lambda>k. drop k s) (rev [lo ..< Suc n]))"
| "rx_rests Spaces s =
     (let n = length (takeWhile isspace s)
      in map (\<lambda>k. drop k s) (rev [0 ..< Suc n]))"

fun seq_rests :: "rx list \<Rightarrow> pystr \<Rightarrow> pystr list" where
  "seq_rests [] s = [s]"
| "seq_rests (x # xs) s = concat (map (seq_rests xs) (rx_rests x s))"

definition re_match :: "regex \<Rightarrow> pystr \<Rightarrow> (pystr \<times> pystr) option" where
  "re_match p s =
     (case p of (g1, sep, g2) \<Rightarrow>
        (case concat (map (\<lambda>r1. concat (map (\<lambda>r2. map (\<lambda>r3. (r1, r2, r3)) (seq_rests g2 r2))
                                              (seq_rests sep r1)))
                          (seq_rests g1 s)) of
           [] \<Rightarrow> None
         | (r1, r2, r3) # _ \<Rightarrow>
             Some (take (length s - length r1) s, take (length r2 - length r3) r2)))"

fun search_from :: "regex \<Rightarrow> pystr \<Rightarrow> (pystr \<times> pystr) option" where
  "search_from p [] = re_match p []"
| "search_from p (c # cs) =
     (case re_match p (c # cs) of
        Some g \<Rightarrow> Some g
      | None \<Rightarrow> search_from p cs)"

text \<open>
  \<open>strptime\<close> for a format of \<open>%d\<close>, \<open>%m\<close>, \<open>%Y\<close> and literal characters: a day or a month is one
  or two digits (as many as there are, at most two), a year is four digits, the whole text
  must be used, and the date must exist.
\<close>

fun read_fields ::
  "pystr \<Rightarrow> pystr \<Rightarrow> (nat \<times> nat) list \<Rightarrow> (nat \<times> nat) list option" where
  "read_fields [] s acc = (if s = [] then Some acc else None)"
| "read_fields [c] s acc =
     (case s of [] \<Rightarrow> None | x # xs \<Rightarrow> if c \<noteq> 37 \<and> x = c then read_fields [] xs acc else None)"
| "read_fields (c # d # fmt) s acc =
     (if c = 37 then
        (let width = (if d = 89 then 4 else 2);
             ds = take width (takeWhile is_digit s)
         in if ds = [] \<or> (d = 89 \<and> length ds \<noteq> 4) then None
            else read_fields fmt (drop (length ds) s) ((d, digits_value ds) # acc))
      else (case s of [] \<Rightarrow> None | x # xs \<Rightarrow> if x = c then read_fields (d # fmt) xs acc else None))"

definition days_in_month :: "nat \<Rightarrow> nat \<Rightarrow> nat" where
  "days_in_month y m =
     (if m = 2 then (if y mod 4 = 0 \<and> (y mod 100 \<noteq> 0 \<or> y mod 400 = 0) then 29 else 28)
      else if m \<in> set [4, 6, 9, 11] then 30 else 31)"

definition strptime_dmy :: "pystr \<Rightarrow> pystr \<Rightarrow> date option" where
  "strptime_dmy s fmt =
     (case read_fields fmt s [] of
        None \<Rightarrow> None
      | Some fs \<Rightarrow>
          (case (map_of fs 89, map_of fs 109, map_of fs 100) of
             (Some y, Some m, Some d) \<Rightarrow>
               (if 1 \<le> y \<and> 1 \<le> m \<and> m \<le> 12 \<and> 1 \<le> d \<and> d \<le> days_in_month y m
                then Some (Date y m d) else None)
           | _ \<Rightarrow> None))"

definition pad2 :: "nat \<Rightarrow> pystr" where
  "pad2 n = (if n < 10 then 48 # str_of_nat n else str_of_nat n)"

definition repr_value :: "cell \<Rightarrow> pystr" where
  "repr_value c =
     (case c of
        Str s \<Rightarrow> s
      | Flt (Finite x) \<Rightarrow> (if x < 0 then [45] else []) @ str_of_nat (nat \<lfloor>\<bar>x\<bar>\<rfloor>) @ py ''.0''
      | Flt PosInf \<Rightarrow> py ''inf''
      | Flt NegInf \<Rightarrow> py ''-inf''
      | Flt NaN \<Rightarrow> py ''nan''
      | Dat (Date y m d) \<Rightarrow> str_of_nat y @ [45] @ pad2 m @ [45] @ pad2 d)"

definition repr_str :: "pystr \<Rightarrow> pystr" where
  "repr_str s = [quote] @ s @ [quote]"

definition show_error :: "ExcelValidationError \<Rightarrow> pystr" where
  "show_error v =
     py ''row_number='' @ str_of_nat (row_number v)
     @ py '' column_name='' @ repr_str (column_name v)
     @ py '' error_type='' @ repr_str (error_type v)
     @ py '' error_message='' @ repr_str (error_message v)
     @ py '' raw_value='' @ repr_str (raw_value v)"

definition show_failure :: "libfail \<Rightarrow> pystr" where
  "show_failure e =
     (case e of
        BadFloat c \<Rightarrow> py ''could not convert string to float: '' @ repr_str (repr_value c)
      | BadDate s \<Rightarrow> py ''time data '' @ repr_str s @ py '' does not match format '' @ repr_str (py ''%Y-%m-%d'')
      | Invalid names \<Rightarrow> py ''validation error for InsurancePolicyCreate: '' @ join (py '', '') names)"

definition example_lib :: "(nat list \<Rightarrow> pystr + frame) \<Rightarrow> pylib" where
  "example_lib reader =
     \<lparr>read_excel = reader,
      py_float = float_literal,
      py_repr = repr_value,
      py_upper = ascii_upper,
      re_search = search_from,
      strptime = strptime_dmy,
      date_of_float = (\<lambda>x. None),
      fail_text = show_failure,
      str_of_error = show_error\<rparr>"

text \<open>A store and an audit trail that accept every call.\<close>

definition accepting :: env where
  "accepting =
     \<lparr>policy_repository_error = None,
      audit_repository_error = (\<lambda>n. None),
      session_open_error = (\<lambda>k. None),
      db_model_error = (\<lambda>p. None),
      commit_error = (\<lambda>k ps. None),
      log_data_ingestion_error = (\<lambda>entry. None),
      elapsed_ms = 0\<rparr>"

text \<open>A sheet with the default headers, given by its cells, row by row.\<close>

definition headers :: "pystr list" where
  "headers =
     [py ''Policy Number'', py ''Insured Name'', py ''Sum Insured'', py ''Premium'',
      py ''Own Retention %'', py ''Own Retention Sum Insured'', py ''Own Retention Premium'',
      py ''Treaty %'', py ''Treaty Sum Insured'', py ''Treaty Premium'',
      py ''Period of Insurance'']"

definition text_cell :: "string \<Rightarrow> cell" where
  "text_cell s = Str (py s)"

definition sheet :: "cell list list \<Rightarrow> frame" where
  "sheet cells =
     \<lparr>columns = headers,
      rows = map (\<lambda>(i, cs). (i, zip headers cs)) (zip [0 ..< length cells] cells)\<rparr>"

definition no_file :: "nat list \<Rightarrow> pystr + frame" where
  "no_file file_content = Inl (py ''File is not a zip file'')"

section \<open>Notions used in the statements\<close>

text \<open>The text of one cell after lines 252 to 258, and the outcome of lines 262 to 275 on it.\<close>

definition clean_text :: "pystr \<Rightarrow> pystr" where
  "clean_text s = strip (remove_char percent (remove_char naira (remove_char comma s)))"

definition sanitize_cell ::
  "pylib \<Rightarrow> nat \<Rightarrow> pystr \<Rightarrow> cell \<Rightarrow> pyfloat \<times> ExcelValidationError list" where
  "sanitize_cell L idx field c = convert_numeric_value L idx field (clean_text (cell_str L c))"

text \<open>A frame of one column and one row.\<close>

definition cell_frame :: "pystr \<Rightarrow> cell \<Rightarrow> frame" where
  "cell_frame field c = \<lparr>columns = [field], rows = [(0, [(field, c)])]\<rparr>"

text \<open>What one pattern yields on a period string: both dates, when it matches and both sides parse.\<close>

definition pattern_result :: "pylib \<Rightarrow> pystr \<Rightarrow> regex \<Rightarrow> (date \<times> date) option" where
  "pattern_result L s p =
     (case re_search L p s of
        None \<Rightarrow> None
      | Some (start_str, end_str) \<Rightarrow>
          (case (parse_single_date L start_str, parse_single_date L end_str) of
             (Some start_date, Some end_date) \<Rightarrow> Some (start_date, end_date)
           | _ \<Rightarrow> None))"

text \<open>The domain invariant of a policy record.\<close>

definition policy_invariant :: "InsurancePolicyCreate \<Rightarrow> bool" where
  "policy_invariant p \<longleftrightarrow>
     strip (policy_number p) \<noteq> [] \<and> strip (insured_name p) \<noteq> []
     \<and> flt_lt (Finite 0) (sum_insured p) \<and> flt_lt (Finite 0) (premium p)
     \<and> flt_le (Finite 0) (own_retention_ppn p) \<and> flt_le (own_retention_ppn p) (Finite 100)
     \<and> flt_le (Finite 0) (treaty_ppn p) \<and> flt_le (treaty_ppn p) (Finite 100)
     \<and> flt_le (Finite 0) (own_retention_sum_insured p)
     \<and> flt_le (Finite 0) (own_retention_premium p)
     \<and> flt_le (Finite 0) (treaty_sum_insured p)
     \<and> flt_le (Finite 0) (treaty_premium p)
     \<and> \<not> date_le (insurance_period_end_date p) (insurance_period_start_date p)"

text \<open>
  The row labelled \<open>idx\<close> after \<open>_clean_and_validate_data\<close>, for a frame with the columns
  \<open>cols\<close>: the two string fields are coerced, trimmed and \<open>nan\<close> is emptied, then the eight
  numeric fields are sanitized.
\<close>

definition cleaned_string :: "pylib \<Rightarrow> cell \<Rightarrow> cell" where
  "cleaned_string L c = replace_nan (Str (strip (cell_str L c)))"

definition cleaned_row :: "pylib \<Rightarrow> pystr list \<Rightarrow> nat \<Rightarrow> row \<Rightarrow> row" where
  "cleaned_row L cols idx r =
     fold (\<lambda>f r. if f \<in> set cols
                  then AList.update f (Flt (fst (sanitize_cell L idx f (get_cell r f)))) r else r)
       numeric_fields
       (fold (\<lambda>f r. if f \<in> set cols then AList.update f (cleaned_string L (get_cell r f)) r else r)
          string_fields r)"

text \<open>The request of the examples: the defaults of \<open>ExcelIngestionRequest\<close>.\<close>

definition default_request :: ExcelIngestionRequest where
  "default_request = \<lparr>validate_schema = True, skip_duplicates = True, batch_size = 1000\<rparr>"

text \<open>A sheet without any column, as read from an empty workbook.\<close>

definition empty_sheet :: frame where
  "empty_sheet = \<lparr>columns = [], rows = []\<rparr>"

section \<open>Sanitizer: what \<open>_clean_numeric_field\<close> does to a column\<close>

lemma get_cell_update: "get_cell (AList.update f c r) g = (if g = f then c else get_cell r g)"
  by (simp add: get_cell_def update_conv')

lemma clean_text_removed: "clean_text (remove_char naira (remove_char comma s)) = clean_text s"
proof -
  have "remove_char percent (remove_char naira (remove_char comma (remove_char naira (remove_char comma s))))
        = remove_char percent (remove_char naira (remove_char comma s))"
    unfolding remove_char_def filter_filter by (rule filter_cong) auto
  then show ?thesis
    by (simp add: clean_text_def)
qed

lemma columns_map_column [simp]: "columns (map_column f g df) = columns df"
  by (simp add: map_column_def)

lemma rows_map_column:
  "rows (map_column f g df) = map (\<lambda>(idx, r). (idx, AList.update f (g (get_cell r f)) r)) (rows df)"
  by (simp add: map_column_def)

lemma map_column_twice:
  "map_column f g (map_column f h df) = map_column f (g \<circ> h) df"
  by (simp add: map_column_def get_cell_update case_prod_unfold comp_def)

lemma clean_numeric_column_eq:
  "clean_numeric_column L f df = map_column f (\<lambda>c. Str (clean_text (cell_str L c))) df"
  by (simp add: clean_numeric_column_def Let_def map_column_twice comp_def str_method_def clean_text_def)

lemma numeric_loop_eq:
  "numeric_loop L f rs =
     (map (\<lambda>(idx, r). (idx, AList.update f (Flt (fst (convert_numeric_value L idx f (cell_str L (get_cell r f))))) r)) rs,
      concat (map (\<lambda>(idx, r). snd (convert_numeric_value L idx f (cell_str L (get_cell r f)))) rs))"
  by (induction rs) (auto simp: case_prod_unfold Let_def)

lemma clean_numeric_field_rows:
  assumes "f \<in> set (columns df)"
  shows "clean_numeric_field L df f =
     (df\<lparr>rows := map (\<lambda>(idx, r). (idx, AList.update f (Flt (fst (sanitize_cell L idx f (get_cell r f)))) r)) (rows df)\<rparr>,
      concat (map (\<lambda>(idx, r). snd (sanitize_cell L idx f (get_cell r f))) (rows df)))"
  using assms
  by (simp add: clean_numeric_field_def clean_numeric_column_eq numeric_loop_eq rows_map_column
      sanitize_cell_def get_cell_update case_prod_unfold comp_def cell_str_def map_column_def)

lemmas text_defs = py_def comma_def percent_def naira_def quote_def isspace_def strip_def
  lower_def remove_char_def clean_text_def text_cell_def

lemmas float_defs = float_literal_def is_digit_def digits_value_def

text \<open>
  C9, as stated, at the cell \<open>$1,234.50\<close>: the dollar sign is a currency symbol, and with
  it and the comma removed the cell reads \<open>1234.50\<close>, which is sanitized to 1234.5; the cell
  itself is sanitized to 0.0, with an error, because only the sign U+20A6 is removed.
\<close>

theorem dollar_sign_changes_value:
  "clean_numeric_field (example_lib no_file) (cell_frame (py ''premium'') (text_cell ''$1,234.50''))
      (py ''premium'')
     = (cell_frame (py ''premium'') (Flt (Finite 0)),
        [invalid_numeric (example_lib no_file) 0 (py ''premium'') (py ''$1234.50'')])
   \<and> clean_numeric_field (example_lib no_file) (cell_frame (py ''premium'') (text_cell ''1234.50''))
      (py ''premium'')
     = (cell_frame (py ''premium'') (Flt (Finite 1234.5)), [])"
  by (simp add: clean_numeric_field_rows cell_frame_def get_cell_def sanitize_cell_def cell_str_def
      convert_numeric_value_def example_lib_def text_defs float_defs)

text \<open>
  C9, amended. Sanitizing a numeric cell gives the same result (the same float, and the
  same errors) as sanitizing the cell with its thousands-separator commas and its naira
  signs U+20A6, the one currency symbol the sanitizer removes, taken out.
\<close>

theorem separators_and_naira_ignored:
  "clean_numeric_field L (cell_frame f (Str (remove_char naira (remove_char comma s)))) f
   = clean_numeric_field L (cell_frame f (Str s)) f"
  by (simp add: clean_numeric_field_rows cell_frame_def get_cell_def sanitize_cell_def cell_str_def
      clean_text_removed)

text \<open>The example of the specification: \<open>1,234.50\<close> and \<open>1234.50\<close> both yield 1234.5.\<close>

theorem separators_and_naira_ignored_witness:
  "clean_numeric_field (example_lib no_file) (cell_frame (py ''premium'') (text_cell ''1234.50'')) (py ''premium'')
   = clean_numeric_field (example_lib no_file) (cell_frame (py ''premium'') (text_cell ''1,234.50'')) (py ''premium'')
   \<and> fst (clean_numeric_field (example_lib no_file) (cell_frame (py ''premium'') (text_cell ''1,234.50''))
          (py ''premium''))
     = cell_frame (py ''premium'') (Flt (Finite 1234.5))"
proof -
  have same: "remove_char naira (remove_char comma (py ''1,234.50'')) = py ''1234.50''"
    by (simp add: text_defs)
  have val: "fst (clean_numeric_field (example_lib no_file) (cell_frame (py ''premium'') (text_cell ''1,234.50''))
          (py ''premium'')) = cell_frame (py ''premium'') (Flt (Finite 1234.5))"
    by (simp add: clean_numeric_field_rows cell_frame_def get_cell_def sanitize_cell_def cell_str_def
        convert_numeric_value_def example_lib_def text_defs float_defs)
  have "clean_numeric_field (example_lib no_file) (cell_frame (py ''premium'') (Str (py ''1234.50''))) (py ''premium'')
        = clean_numeric_field (example_lib no_file) (cell_frame (py ''premium'') (Str (py ''1,234.50''))) (py ''premium'')"
    using separators_and_naira_ignored [of "example_lib no_file" "py ''premium''" "py ''1,234.50''"]
    by (simp only: same)
  with val show ?thesis
    by (simp add: text_cell_def)
qed

text \<open>
  The \<open>raw_value\<close> of an \<open>invalid_numeric\<close> error, at the cell \<open>abc%\<close>: it is \<open>abc\<close>, the text
  left after the symbols were removed, and not the text of the cell.
\<close>

theorem raw_text_not_preserved:
  "map error_type (snd (clean_numeric_field (example_lib no_file)
      (cell_frame (py ''premium'') (text_cell ''abc%'')) (py ''premium''))) = [py ''invalid_numeric'']
   \<and> map raw_value (snd (clean_numeric_field (example_lib no_file)
      (cell_frame (py ''premium'') (text_cell ''abc%'')) (py ''premium''))) = [py ''abc'']
   \<and> py ''abc'' \<noteq> py ''abc%''"
  by (simp add: clean_numeric_field_rows cell_frame_def get_cell_def sanitize_cell_def cell_str_def
      convert_numeric_value_def invalid_numeric_def example_lib_def text_defs float_defs)

text \<open>
  C6, as stated, at the cell \<open>$\<close>: with its currency symbol stripped the text is empty, for
  which the claim gives 0.0 and no error; the sanitizer removes only the sign U+20A6, finds
  that \<open>$\<close> is not a number, and records an \<open>invalid_numeric\<close> error.
\<close>

theorem dollar_sign_not_stripped:
  "fst (clean_numeric_field (example_lib no_file)
      (cell_frame (py ''premium'') (text_cell ''$'')) (py ''premium''))
     = cell_frame (py ''premium'') (Flt (Finite 0))
   \<and> map error_type (snd (clean_numeric_field (example_lib no_file)
      (cell_frame (py ''premium'') (text_cell ''$'')) (py ''premium''))) = [py ''invalid_numeric'']"
  by (simp add: clean_numeric_field_rows cell_frame_def get_cell_def sanitize_cell_def cell_str_def
      convert_numeric_value_def invalid_numeric_def example_lib_def text_defs float_defs)

text \<open>
  C6, amended. \<open>_clean_numeric_field\<close> returns for every frame (it never raises): each cell
  of the column becomes a float, and the errors are those of the cells in row order. With
  \<open>v\<close> the text of the cell after commas, naira signs U+20A6 (no other currency symbol) and
  percent signs are removed and the text is trimmed: if \<open>v\<close> is empty or is \<open>nan\<close>, \<open>null\<close> or
  \<open>none\<close> in any case, the float is 0.0 and no error is recorded; otherwise, if \<open>float(v)\<close>
  succeeds its value is the float and no error is recorded, and if it fails the float is
  0.0 and one error of kind \<open>invalid_numeric\<close> is recorded for that row and column.
\<close>

theorem numeric_sanitizer:
  "(field \<in> set (columns df) \<longrightarrow>
      clean_numeric_field L df field =
        (df\<lparr>rows := map (\<lambda>(idx, r).
             (idx, AList.update field (Flt (fst (sanitize_cell L idx field (get_cell r field)))) r))
             (rows df)\<rparr>,
         concat (map (\<lambda>(idx, r). snd (sanitize_cell L idx field (get_cell r field))) (rows df))))
   \<and> (let v = strip (remove_char percent (remove_char naira (remove_char comma (cell_str L c)))) in
        if v = [] \<or> lower v \<in> set [py ''nan'', py ''null'', py ''none'']
        then sanitize_cell L idx field c = (Finite 0, [])
        else (case py_float L v of
                Some x \<Rightarrow> sanitize_cell L idx field c = (x, [])
              | None \<Rightarrow>
                  fst (sanitize_cell L idx field c) = Finite 0
                  \<and> map error_type (snd (sanitize_cell L idx field c)) = [py ''invalid_numeric'']
                  \<and> map row_number (snd (sanitize_cell L idx field c)) = [idx + 2]
                  \<and> map column_name (snd (sanitize_cell L idx field c)) = [field]))
   \<and> naira = 8358"
  by (simp add: clean_numeric_field_rows sanitize_cell_def convert_numeric_value_def
      invalid_numeric_def Let_def clean_text_def naira_def split: option.split)

text \<open>A column with an empty cell, the cells \<open>NaN\<close> and \<open>abc%\<close>, and the cell \<open>12\<close> with spaces.\<close>

theorem numeric_sanitizer_witness:
  "py ''premium'' \<in> set (columns \<lparr>columns = [py ''premium''], rows =
        [(0, [(py ''premium'', Flt NaN)]), (1, [(py ''premium'', text_cell ''NaN'')]),
         (2, [(py ''premium'', text_cell ''abc%'')]), (3, [(py ''premium'', text_cell '' 12 '')])]\<rparr>)
   \<and> fst (clean_numeric_field (example_lib no_file)
       \<lparr>columns = [py ''premium''], rows =
        [(0, [(py ''premium'', Flt NaN)]), (1, [(py ''premium'', text_cell ''NaN'')]),
         (2, [(py ''premium'', text_cell ''abc%'')]), (3, [(py ''premium'', text_cell '' 12 '')])]\<rparr>
       (py ''premium''))
     = \<lparr>columns = [py ''premium''], rows =
        [(0, [(py ''premium'', Flt (Finite 0))]), (1, [(py ''premium'', Flt (Finite 0))]),
         (2, [(py ''premium'', Flt (Finite 0))]), (3, [(py ''premium'', Flt (Finite 12))])]\<rparr>
   \<and> map (\<lambda>e. (row_number e, column_name e, error_type e))
        (snd (clean_numeric_field (example_lib no_file)
       \<lparr>columns = [py ''premium''], rows =
        [(0, [(py ''premium'', Flt NaN)]), (1, [(py ''premium'', text_cell ''NaN'')]),
         (2, [(py ''premium'', text_cell ''abc%'')]), (3, [(py ''premium'', text_cell '' 12 '')])]\<rparr>
       (py ''premium'')))
     = [(4, py ''premium'', py ''invalid_numeric'')]"
  using numeric_sanitizer [of "py ''premium''" "\<lparr>columns = [py ''premium''], rows =
        [(0, [(py ''premium'', Flt NaN)]), (1, [(py ''premium'', text_cell ''NaN'')]),
         (2, [(py ''premium'', text_cell ''abc%'')]), (3, [(py ''premium'', text_cell '' 12 '')])]\<rparr>"
        "example_lib no_file"]
  by (simp add: get_cell_def sanitize_cell_def cell_str_def convert_numeric_value_def
      invalid_numeric_def example_lib_def text_defs float_defs)

section \<open>Period parser: the order of the patterns and of the formats\<close>

lemma try_formats_first:
  "try_formats L t fs =
     (case filter (\<lambda>fmt. strptime L t fmt \<noteq> None) fs of [] \<Rightarrow> None | fmt # _ \<Rightarrow> strptime L t fmt)"
  by (induction fs) (auto split: option.splits)

lemma try_patterns_first:
  "try_patterns L s ps =
     (case List.map_filter (pattern_result L s) ps of
        [] \<Rightarrow> Inl (py ''Cannot parse insurance period: '' @ s)
      | d # _ \<Rightarrow> Inr d)"
  by (induction ps) (auto simp: List.map_filter_simps pattern_result_def split: option.splits)

lemma map_filter_empty:
  "List.map_filter f xs = [] \<longleftrightarrow> (\<forall>x \<in> set xs. f x = None)"
  by (induction xs) (auto simp: List.map_filter_simps split: option.splits)

lemmas regex_defs = re_match_def date_patterns_def is_digit_def

lemmas strptime_defs = strptime_dmy_def days_in_month_def date_formats_def is_digit_def
  digits_value_def

lemma example_dates:
  "parse_single_date (example_lib no_file) (py ''31/02/2024'') = None"
  "parse_single_date (example_lib no_file) (py ''2024-02-29'') = Some (Date 2024 2 29)"
  "parse_single_date (example_lib no_file) (py ''2025-02-28'') = Some (Date 2025 2 28)"
  "parse_single_date (example_lib no_file) (py ''01/01/2024'') = Some (Date 2024 1 1)"
  "parse_single_date (example_lib no_file) (py ''31/12/2024'') = Some (Date 2024 12 31)"
  by (simp_all add: parse_single_date_def example_lib_def text_defs strptime_defs Let_def)

text \<open>
  C5, as stated, at a cell that gives the period in two notations, the first with a day
  that does not exist: the first pattern matches, its first captured side fails all six
  formats, and yet parsing succeeds, with the dates of the second pattern.
\<close>

theorem first_matching_pattern_does_not_win:
  "re_search (example_lib no_file) (hd date_patterns)
      (strip (py ''31/02/2024 - 28/02/2025 (2024-02-29 - 2025-02-28)''))
     = Some (py ''31/02/2024'', py ''28/02/2025'')
   \<and> parse_single_date (example_lib no_file) (py ''31/02/2024'') = None
   \<and> parse_insurance_period (example_lib no_file)
       (py ''31/02/2024 - 28/02/2025 (2024-02-29 - 2025-02-28)'')
     = Inr (Date 2024 2 29, Date 2025 2 28)"
proof -
  let ?s = "strip (py ''31/02/2024 - 28/02/2025 (2024-02-29 - 2025-02-28)'')"
  have first: "re_search (example_lib no_file) (hd date_patterns) ?s
      = Some (py ''31/02/2024'', py ''28/02/2025'')"
    by (simp add: example_lib_def text_defs regex_defs Let_def)
  have second: "re_search (example_lib no_file) (hd (tl date_patterns)) ?s
      = Some (py ''2024-02-29'', py ''2025-02-28'')"
    by (simp add: example_lib_def text_defs regex_defs Let_def)
  have split: "date_patterns = hd date_patterns # hd (tl date_patterns) # tl (tl date_patterns)"
    by (simp add: date_patterns_def)
  have "try_patterns (example_lib no_file) ?s date_patterns = Inr (Date 2024 2 29, Date 2025 2 28)"
    by (subst split) (simp add: first second example_dates)
  then show ?thesis
    using first by (simp add: parse_insurance_period_def example_dates)
qed

text \<open>
  C5, amended. The four patterns are tried in their fixed order on the trimmed string. A
  pattern is taken when it matches somewhere in the string and both captured substrings
  parse; a pattern that matches but has a side that fails all formats is passed over and
  the next pattern is tried. Each side is parsed on its own by the six formats
  \<open>%d/%m/%Y\<close>, \<open>%m/%d/%Y\<close>, \<open>%Y-%m-%d\<close>, \<open>%d-%m-%Y\<close>, \<open>%d.%m.%Y\<close>, \<open>%Y/%m/%d\<close> in this order, the first
  that succeeds being used. Parsing fails exactly when no pattern both matches and has two
  sides that parse.
\<close>

theorem period_parser_priority:
  "parse_single_date L t =
     (case filter (\<lambda>fmt. strptime L (strip t) fmt \<noteq> None) date_formats of
        [] \<Rightarrow> None
      | fmt # _ \<Rightarrow> strptime L (strip t) fmt)
   \<and> parse_insurance_period L s =
     (case List.map_filter (pattern_result L (strip s)) date_patterns of
        [] \<Rightarrow> Inl (py ''Cannot parse insurance period: '' @ strip s)
      | d # _ \<Rightarrow> Inr d)
   \<and> ((\<exists>e. parse_insurance_period L s = Inl e) \<longleftrightarrow>
        (\<forall>p \<in> set date_patterns. pattern_result L (strip s) p = None))
   \<and> date_formats =
       [py ''%d/%m/%Y'', py ''%m/%d/%Y'', py ''%Y-%m-%d'',
        py ''%d-%m-%Y'', py ''%d.%m.%Y'', py ''%Y/%m/%d'']"
proof -
  have "(\<exists>e. parse_insurance_period L s = Inl e) \<longleftrightarrow>
        List.map_filter (pattern_result L (strip s)) date_patterns = []"
    by (simp add: parse_insurance_period_def try_patterns_first split: list.splits)
  then show ?thesis
    by (simp add: parse_single_date_def try_formats_first parse_insurance_period_def
        try_patterns_first map_filter_empty date_formats_def)
qed

text \<open>A period in the first notation is parsed, and a cell without a date range is refused.\<close>

theorem period_parser_priority_witness:
  "parse_insurance_period (example_lib no_file) (py ''01/01/2024 - 31/12/2024'')
     = Inr (Date 2024 1 1, Date 2024 12 31)
   \<and> map (pattern_result (example_lib no_file) (strip (py ''next year''))) date_patterns
     = [None, None, None, None]
   \<and> parse_insurance_period (example_lib no_file) (py ''next year'')
     = Inl (py ''Cannot parse insurance period: next year'')"
proof -
  have first: "pattern_result (example_lib no_file) (strip (py ''01/01/2024 - 31/12/2024'')) (hd date_patterns)
      = Some (Date 2024 1 1, Date 2024 12 31)"
  proof -
    have "re_search (example_lib no_file) (hd date_patterns) (strip (py ''01/01/2024 - 31/12/2024''))
        = Some (py ''01/01/2024'', py ''31/12/2024'')"
      by (simp add: example_lib_def text_defs regex_defs Let_def)
    then show ?thesis
      by (simp add: pattern_result_def example_dates)
  qed
  have none: "\<forall>p \<in> set date_patterns. pattern_result (example_lib no_file) (strip (py ''next year'')) p = None"
    by (simp add: pattern_result_def example_lib_def text_defs regex_defs Let_def)
  have split: "date_patterns = hd date_patterns # tl date_patterns"
    by (simp add: date_patterns_def)
  have found: "List.map_filter (pattern_result (example_lib no_file) (strip (py ''01/01/2024 - 31/12/2024'')))
          date_patterns
        = (Date 2024 1 1, Date 2024 12 31)
          # List.map_filter (pattern_result (example_lib no_file) (strip (py ''01/01/2024 - 31/12/2024'')))
              (tl date_patterns)"
    by (subst split) (simp add: List.map_filter_simps first)
  have parsed: "parse_insurance_period (example_lib no_file) (py ''01/01/2024 - 31/12/2024'')
      = Inr (Date 2024 1 1, Date 2024 12 31)"
    using period_parser_priority [of "example_lib no_file" "[]" "py ''01/01/2024 - 31/12/2024''"]
    by (simp add: found)
  have "List.map_filter (pattern_result (example_lib no_file) (strip (py ''next year''))) date_patterns = []"
    using none by (simp add: map_filter_empty)
  then have refused: "parse_insurance_period (example_lib no_file) (py ''next year'')
      = Inl (py ''Cannot parse insurance period: next year'')"
    using period_parser_priority [of "example_lib no_file" "[]" "py ''next year''"]
    by (simp add: text_defs)
  have "map (pattern_result (example_lib no_file) (strip (py ''next year''))) date_patterns
      = [None, None, None, None]"
    using none by (simp add: date_patterns_def)
  with parsed refused show ?thesis
    by simp
qed

section \<open>\<open>_clean_and_validate_data\<close> row by row\<close>

lemma get_cell_if_update:
  "get_cell (if b then AList.update f c r else r) g = (if b \<and> g = f then c else get_cell r g)"
  by (simp add: get_cell_update)

lemma clean_string_field_rows:
  "clean_string_field L df f =
     df\<lparr>rows := map (\<lambda>(idx, r). (idx, if f \<in> set (columns df)
                       then AList.update f (cleaned_string L (get_cell r f)) r else r)) (rows df)\<rparr>"
  by (simp add: clean_string_field_def Let_def map_column_twice comp_def str_method_def
      cleaned_string_def map_column_def case_prod_unfold get_cell_update)

lemma clean_string_fields_rows:
  "fold (\<lambda>f d. clean_string_field L d f) names df =
     df\<lparr>rows := map (\<lambda>(idx, r). (idx, fold (\<lambda>f r. if f \<in> set (columns df)
                       then AList.update f (cleaned_string L (get_cell r f)) r else r) names r)) (rows df)\<rparr>"
proof (induction names arbitrary: df)
  case Nil
  then show ?case by (simp add: case_prod_unfold)
next
  case (Cons f names)
  show ?case
    by (simp add: Cons.IH) (simp add: clean_string_field_rows case_prod_unfold comp_def cong: if_cong)
qed

lemma clean_numeric_fields_rows:
  "fst (clean_numeric_fields L names (df, es)) =
     df\<lparr>rows := map (\<lambda>(idx, r). (idx, fold (\<lambda>f r. if f \<in> set (columns df)
                  then AList.update f (Flt (fst (sanitize_cell L idx f (get_cell r f)))) r else r) names r))
              (rows df)\<rparr>"
proof (induction names arbitrary: df es)
  case Nil
  then show ?case by (simp add: clean_numeric_fields_def case_prod_unfold)
next
  case (Cons f names)
  have step: "clean_numeric_fields L (f # names) (df, es) =
      clean_numeric_fields L names
        (if f \<in> set (columns df)
         then (fst (clean_numeric_field L df f), es @ snd (clean_numeric_field L df f))
         else (df, es))"
    by (simp add: clean_numeric_fields_def case_prod_unfold Let_def)
  show ?case
    by (simp add: step Cons.IH clean_numeric_field_rows case_prod_unfold comp_def cong: if_cong)
qed

lemma clean_and_validate_rows:
  "fst (clean_and_validate_data L df) =
     df\<lparr>rows := map (\<lambda>(idx, r). (idx, cleaned_row L (columns df) idx r)) (rows df)\<rparr>"
  by (simp add: clean_and_validate_data_def Let_def case_prod_unfold clean_numeric_fields_rows
      clean_string_fields_rows cleaned_row_def comp_def cong: if_cong)

lemma clean_and_validate_errors:
  "snd (clean_and_validate_data L df) =
     snd (clean_numeric_fields L numeric_fields (fold (\<lambda>f d. clean_string_field L d f) string_fields df, []))
     @ concat (map (percentage_errors L (fst (clean_and_validate_data L df))) percentage_fields)"
  by (simp add: clean_and_validate_data_def Let_def case_prod_unfold)

lemma cleaned_percentage:
  assumes "f \<in> set percentage_fields" "f \<in> set cols"
  shows "get_cell (cleaned_row L cols idx r) f = Flt (fst (sanitize_cell L idx f (get_cell r f)))"
proof -
  from assms(1) consider "f = py ''own_retention_ppn''" | "f = py ''treaty_ppn''"
    by (auto simp: percentage_fields_def)
  then show ?thesis
  proof cases
    case 1
    with assms(2) show ?thesis
      by (simp add: cleaned_row_def string_fields_def numeric_fields_def get_cell_if_update
          get_cell_update py_def)
  next
    case 2
    with assms(2) show ?thesis
      by (simp add: cleaned_row_def string_fields_def numeric_fields_def get_cell_if_update
          get_cell_update py_def)
  qed
qed

text \<open>
  C7. For a percentage field of the sheet and a row whose sanitized value \<open>x\<close> is below 0 or
  above 100, the cleaned row still holds \<open>x\<close> in that field, and an error of kind
  \<open>invalid_percentage\<close> for that row and field is among the errors returned.
\<close>

theorem percentage_flagged_not_reset:
  assumes "field \<in> set percentage_fields" and "field \<in> set (columns df)"
    and "i < length (rows df)" and "rows df ! i = (idx, r)"
    and "x = fst (sanitize_cell L idx field (get_cell r field))"
    and "flt_lt x (Finite 0) \<or> flt_lt (Finite 100) x"
  shows "\<exists>r'. rows (fst (clean_and_validate_data L df)) ! i = (idx, r')
           \<and> get_cell r' field = Flt x
           \<and> \<lparr>row_number = idx + 2,
               column_name = field,
               error_type = py ''invalid_percentage'',
               error_message = py ''Percentage must be between 0 and 100, got '' @ cell_str L (Flt x),
               raw_value = cell_str L (Flt x)\<rparr>
             \<in> set (snd (clean_and_validate_data L df))"
proof -
  let ?df' = "fst (clean_and_validate_data L df)"
  let ?r' = "cleaned_row L (columns df) idx r"
  have row: "rows ?df' ! i = (idx, ?r')"
    using assms(3,4) by (simp add: clean_and_validate_rows)
  have cell: "get_cell ?r' field = Flt x"
    using assms(1,2,5) by (simp add: cleaned_percentage)
  have cols: "field \<in> set (columns ?df')"
    using assms(2) by (simp add: clean_and_validate_rows)
  have "i < length (rows ?df')"
    using assms(3) by (simp add: clean_and_validate_rows)
  with row have mem: "(idx, ?r') \<in> set (rows ?df')"
    by (metis nth_mem)
  have "invalid_pct (get_cell ?r' field)"
    using cell assms(6) by (simp add: invalid_pct_def)
  with mem cols cell have "invalid_percentage L idx field (Flt x) \<in> set (percentage_errors L ?df' field)"
    by (force simp: percentage_errors_def)
  with assms(1) have "invalid_percentage L idx field (Flt x) \<in> set (snd (clean_and_validate_data L df))"
    by (subst clean_and_validate_errors) auto
  with row cell show ?thesis
    by (auto simp: invalid_percentage_def)
qed

text \<open>A sheet whose only column is \<open>treaty_ppn\<close>, with the cell \<open>150\<close>.\<close>

theorem percentage_flagged_not_reset_witness:
  "py ''treaty_ppn'' \<in> set percentage_fields
   \<and> fst (sanitize_cell (example_lib no_file) 0 (py ''treaty_ppn'') (text_cell ''150'')) = Finite 150
   \<and> flt_lt (Finite 100) (Finite 150)
   \<and> (\<exists>r'. rows (fst (clean_and_validate_data (example_lib no_file)
                 (cell_frame (py ''treaty_ppn'') (text_cell ''150'')))) ! 0 = (0, r')
         \<and> get_cell r' (py ''treaty_ppn'') = Flt (Finite 150)
         \<and> \<lparr>row_number = 2,
             column_name = py ''treaty_ppn'',
             error_type = py ''invalid_percentage'',
             error_message = py ''Percentage must be between 0 and 100, got 150.0'',
             raw_value = py ''150.0''\<rparr>
           \<in> set (snd (clean_and_validate_data (example_lib no_file)
                 (cell_frame (py ''treaty_ppn'') (text_cell ''150'')))))"
proof -
  have x: "fst (sanitize_cell (example_lib no_file) 0 (py ''treaty_ppn'') (text_cell ''150'')) = Finite 150"
    by (simp add: sanitize_cell_def cell_str_def convert_numeric_value_def example_lib_def
        text_defs float_defs)
  have shown: "cell_str (example_lib no_file) (Flt (Finite 150)) = py ''150.0''"
    by (simp add: cell_str_def example_lib_def repr_value_def str_of_nat.simps py_def)
  have h1: "py ''treaty_ppn'' \<in> set percentage_fields"
    by (simp add: percentage_fields_def)
  have h2: "py ''treaty_ppn'' \<in> set (columns (cell_frame (py ''treaty_ppn'') (text_cell ''150'')))"
    by (simp add: cell_frame_def)
  have h3: "0 < length (rows (cell_frame (py ''treaty_ppn'') (text_cell ''150'')))"
    by (simp add: cell_frame_def)
  have h4: "rows (cell_frame (py ''treaty_ppn'') (text_cell ''150'')) ! 0
      = (0, [(py ''treaty_ppn'', text_cell ''150'')])"
    by (simp add: cell_frame_def)
  have h5: "Finite 150 = fst (sanitize_cell (example_lib no_file) 0 (py ''treaty_ppn'')
      (get_cell [(py ''treaty_ppn'', text_cell ''150'')] (py ''treaty_ppn'')))"
    by (simp add: x get_cell_def)
  have h6: "flt_lt (Finite 150) (Finite 0) \<or> flt_lt (Finite 100) (Finite 150)"
    by simp
  have msg: "py ''Percentage must be between 0 and 100, got '' @ py ''150.0''
      = py ''Percentage must be between 0 and 100, got 150.0''"
    by (simp add: py_def)
  show ?thesis
    using percentage_flagged_not_reset [OF h1 h2 h3 h4 h5 h6]
    by (simp add: x shown h1 msg numeral_2_eq_2 [symmetric])
qed


section \<open>Row validator: what a converted row satisfies\<close>

lemma strip_strip: "strip (strip s) = strip s"
proof (cases "dropWhile isspace s")
  case Nil
  show ?thesis unfolding strip_def Nil by simp
next
  case (Cons a u)
  then have a: "\<not> isspace a"
    by (metis hd_dropWhile list.sel(1) list.distinct(1))
  define w where "w = dropWhile isspace (rev u)"
  have t: "dropWhile isspace (rev (a # u)) = w @ [a]"
    using a by (simp add: dropWhile_append3 w_def)
  have at_start: "dropWhile isspace (a # rev w) = a # rev w"
    using a by simp
  have at_end: "dropWhile isspace (w @ [a]) = w @ [a]"
  proof (cases w)
    case Nil
    then show ?thesis using a by simp
  next
    case (Cons b w')
    then have "\<not> isspace b"
      by (metis hd_dropWhile list.sel(1) list.distinct(1) w_def)
    then show ?thesis by (simp add: Cons)
  qed
  have one: "strip s = a # rev w"
    by (simp only: strip_def Cons t) simp
  have "strip (a # rev w) = rev (dropWhile isspace (rev (a # rev w)))"
    by (simp only: strip_def at_start)
  also have "rev (a # rev w) = w @ [a]"
    by simp
  finally have "strip (a # rev w) = a # rev w"
    by (simp only: at_end) simp
  with one show ?thesis
    by simp
qed

lemma failing_append: "failing n ok @ rest = [] \<longleftrightarrow> ok \<and> rest = []"
  by (simp add: failing_def)

lemma failing_Nil: "failing n ok = [] \<longleftrightarrow> ok"
  by (simp add: failing_def)

lemma new_policy_length:
  assumes "new_policy L pn nm xs sd ed = Inr p"
  obtains si pr orp ors orpr tp ts tpr where "xs = [si, pr, orp, ors, orpr, tp, ts, tpr]"
proof (cases xs)
  case Nil with assms show ?thesis by (simp add: new_policy_def)
next
  case c1: (Cons x1 l1)
  show ?thesis
  proof (cases l1)
    case Nil with assms c1 show ?thesis by (simp add: new_policy_def)
  next
    case c2: (Cons x2 l2)
    show ?thesis
    proof (cases l2)
      case Nil with assms c1 c2 show ?thesis by (simp add: new_policy_def)
    next
      case c3: (Cons x3 l3)
      show ?thesis
      proof (cases l3)
        case Nil with assms c1 c2 c3 show ?thesis by (simp add: new_policy_def)
      next
        case c4: (Cons x4 l4)
        show ?thesis
        proof (cases l4)
          case Nil with assms c1 c2 c3 c4 show ?thesis by (simp add: new_policy_def)
        next
          case c5: (Cons x5 l5)
          show ?thesis
          proof (cases l5)
            case Nil with assms c1 c2 c3 c4 c5 show ?thesis by (simp add: new_policy_def)
          next
            case c6: (Cons x6 l6)
            show ?thesis
            proof (cases l6)
              case Nil with assms c1 c2 c3 c4 c5 c6 show ?thesis by (simp add: new_policy_def)
            next
              case c7: (Cons x7 l7)
              show ?thesis
              proof (cases l7)
                case Nil with assms c1 c2 c3 c4 c5 c6 c7 show ?thesis by (simp add: new_policy_def)
              next
                case c8: (Cons x8 l8)
                show ?thesis
                proof (cases l8)
                  case Nil with c1 c2 c3 c4 c5 c6 c7 c8 that show ?thesis by simp
                next
                  case (Cons x9 l9)
                  with assms c1 c2 c3 c4 c5 c6 c7 c8 show ?thesis by (simp add: new_policy_def)
                qed
              qed
            qed
          qed
        qed
      qed
    qed
  qed
qed

lemma new_policy_Inr:
  assumes "new_policy L pn nm xs sd ed = Inr p"
  shows "policy_number p = pn \<and> insured_name p = nm \<and> pn \<noteq> [] \<and> nm \<noteq> []
     \<and> gt0 (sum_insured p) \<and> gt0 (premium p)
     \<and> ge0 (own_retention_ppn p) \<and> le100 (own_retention_ppn p)
     \<and> ge0 (treaty_ppn p) \<and> le100 (treaty_ppn p)
     \<and> ge0 (own_retention_sum_insured p) \<and> ge0 (own_retention_premium p)
     \<and> ge0 (treaty_sum_insured p) \<and> ge0 (treaty_premium p)
     \<and> \<not> date_le (insurance_period_end_date p) (insurance_period_start_date p)"
proof -
  from assms obtain si pr orp ors orpr tp ts tpr where xs: "xs = [si, pr, orp, ors, orpr, tp, ts, tpr]"
    by (rule new_policy_length)
  let ?errs = "failing (py ''policy_number'') (1 \<le> length pn \<and> length pn \<le> 50)
               @ failing (py ''insured_name'') (1 \<le> length nm \<and> length nm \<le> 200)
               @ failing (py ''sum_insured'') (gt0 si)
               @ failing (py ''premium'') (gt0 pr)
               @ failing (py ''own_retention_ppn'') (ge0 orp \<and> le100 orp \<and> validate_percentages orp)
               @ failing (py ''own_retention_sum_insured'') (ge0 ors)
               @ failing (py ''own_retention_premium'') (ge0 orpr)
               @ failing (py ''treaty_ppn'') (ge0 tp \<and> le100 tp \<and> validate_percentages tp)
               @ failing (py ''treaty_sum_insured'') (ge0 ts)
               @ failing (py ''treaty_premium'') (ge0 tpr)
               @ failing (py ''insurance_period_start_date'') (date_field L sd \<noteq> None)
               @ failing (py ''insurance_period_end_date'') (date_field L ed \<noteq> None)"
  have ok: "?errs = []"
  proof (rule ccontr)
    assume "?errs \<noteq> []"
    with assms xs show False
      by (simp only: new_policy_def list.case Let_def if_True) simp
  qed
  then have conds: "pn \<noteq> [] \<and> nm \<noteq> [] \<and> gt0 si \<and> gt0 pr \<and> ge0 orp \<and> le100 orp \<and> ge0 ors
      \<and> ge0 orpr \<and> ge0 tp \<and> le100 tp \<and> ge0 ts \<and> ge0 tpr"
    by (auto simp: failing_append failing_Nil)
  from assms xs ok obtain sd' ed' where
    "date_field L sd = Some sd'" "date_field L ed = Some ed'" "\<not> date_le ed' sd'"
    and "p = \<lparr>policy_number = pn, insured_name = nm, sum_insured = si,
                                   premium = pr, own_retention_ppn = orp,
                                   own_retention_sum_insured = ors, own_retention_premium = orpr,
                                   treaty_ppn = tp, treaty_sum_insured = ts, treaty_premium = tpr,
                                   insurance_period_start_date = sd',
                                   insurance_period_end_date = ed'\<rparr>"
    by (simp only: new_policy_def list.case Let_def) (auto split: option.splits if_splits)
  with conds show ?thesis
    by simp
qed

lemma convert_row_invariant:
  assumes "convert_row_to_policy L r = Inr p"
  shows "policy_invariant p"
proof -
  from assms have body: "convert_row_body L r = Inr p"
    by (simp add: convert_row_to_policy_def split: sum.splits)
  then obtain xs where xs: "floats_of_cells L r numeric_fields = Inr xs"
    by (cases "floats_of_cells L r numeric_fields") (simp_all add: convert_row_body_def Let_def)
  from body xs obtain sd where sd: "date_of_cell L (map_of r (py ''insurance_period_start_date'')) = Inr sd"
    by (cases "date_of_cell L (map_of r (py ''insurance_period_start_date''))")
       (simp_all add: convert_row_body_def Let_def split: if_splits)
  from body xs sd obtain ed where ed: "date_of_cell L (map_of r (py ''insurance_period_end_date'')) = Inr ed"
    by (cases "date_of_cell L (map_of r (py ''insurance_period_end_date''))")
       (simp_all add: convert_row_body_def Let_def split: if_splits)
  from body xs sd ed have
    np: "new_policy L (text_of_cell L r (py ''policy_number'')) (text_of_cell L r (py ''insured_name'')) xs sd ed = Inr p"
    by (simp add: convert_row_body_def Let_def split: if_splits sum.splits)
  have "strip (text_of_cell L r f) = text_of_cell L r f" for f
    by (simp add: text_of_cell_def strip_strip)
  with new_policy_Inr [OF np] show ?thesis
    by (simp add: policy_invariant_def gt0_def ge0_def le100_def)
qed

lemma convert_rows_Inl: "convert_row_to_policy L r = Inl e \<Longrightarrow>
   fst (convert_rows L ((idx, r) # rs)) = fst (convert_rows L rs)"
  by (simp add: case_prod_unfold Let_def)

lemma convert_rows_Inr: "convert_row_to_policy L r = Inr q \<Longrightarrow>
   fst (convert_rows L ((idx, r) # rs)) = q # fst (convert_rows L rs)"
  by (simp add: case_prod_unfold Let_def)

lemma convert_rows_sound:
  "p \<in> set (fst (convert_rows L rs)) \<Longrightarrow> \<exists>idx r. (idx, r) \<in> set rs \<and> convert_row_to_policy L r = Inr p"
proof (induction rs)
  case Nil
  then show ?case by simp
next
  case (Cons a rs)
  obtain idx r where a: "a = (idx, r)" by (cases a)
  show ?case
  proof (cases "convert_row_to_policy L r")
    case (Inl e)
    with Cons.prems a have "p \<in> set (fst (convert_rows L rs))"
      by (simp only: convert_rows_Inl)
    with Cons.IH obtain i' r' where "(i', r') \<in> set rs" "convert_row_to_policy L r' = Inr p"
      by blast
    then show ?thesis
      by (intro exI [of _ i'] exI [of _ r']) simp
  next
    case (Inr q)
    with Cons.prems a have "p = q \<or> p \<in> set (fst (convert_rows L rs))"
      by (simp only: convert_rows_Inr) simp
    then show ?thesis
    proof
      assume "p = q"
      with Inr a show ?thesis
        by (intro exI [of _ idx] exI [of _ r]) simp
    next
      assume "p \<in> set (fst (convert_rows L rs))"
      with Cons.IH obtain i' r' where "(i', r') \<in> set rs" "convert_row_to_policy L r' = Inr p"
        by blast
      then show ?thesis
        by (intro exI [of _ i'] exI [of _ r']) simp
    qed
  qed
qed

lemma store_calls_outcome:
  "store_calls (ingest_excel_file L E c f rq) = fst (compute_outcome L E c f rq)"
  by (simp add: ingest_excel_file_def ingest_try_def case_prod_unfold split: sum.splits)

lemma compute_outcome_calls:
  "fst (compute_outcome L E c f rq) = [] \<or>
   (\<exists>df es. parse_excel_file L c f None = Inr (df, es) \<and>
       fst (compute_outcome L E c f rq) = [fst (convert_rows L (rows df))])"
proof (cases "parse_excel_file L c f None")
  case (Inl e)
  then show ?thesis
    by (simp add: compute_outcome_def split: option.splits)
next
  case (Inr res)
  obtain df es where res: "res = (df, es)" by (cases res)
  with Inr show ?thesis
    by (simp add: compute_outcome_def case_prod_unfold split: option.splits sum.splits)
qed

text \<open>
  C10. Every record in a list handed to \<open>bulk_create_policies\<close> by a run satisfies the domain
  invariant: both identity fields are non-empty after trimming, \<open>sum_insured\<close> and \<open>premium\<close>
  are above 0, both percentages are in [0, 100], the four split amounts are at least 0, and
  the period ends after it starts.
\<close>

theorem persisted_records_valid:
  assumes "ps \<in> set (store_calls (ingest_excel_file L E file_content fname request))"
    and "p \<in> set ps"
  shows "policy_invariant p"
proof -
  from compute_outcome_calls [of L E file_content fname request]
  obtain df :: frame where "ps = fst (convert_rows L (rows df))"
  proof
    assume "fst (compute_outcome L E file_content fname request) = []"
    with assms(1) show ?thesis
      by (simp add: store_calls_outcome)
  next
    assume "\<exists>df es. parse_excel_file L file_content fname None = Inr (df, es) \<and>
       fst (compute_outcome L E file_content fname request) = [fst (convert_rows L (rows df))]"
    then obtain df :: frame where
      "fst (compute_outcome L E file_content fname request) = [fst (convert_rows L (rows df))]"
      by blast
    with assms(1) have "ps = fst (convert_rows L (rows df))"
      by (simp add: store_calls_outcome)
    then show ?thesis
      by (rule that)
  qed
  with assms(2) obtain idx r where "convert_row_to_policy L r = Inr p"
    using convert_rows_sound by blast
  then show ?thesis
    by (rule convert_row_invariant)
qed

section \<open>The public entry point always returns a report\<close>

lemma response_of_try:
  "response (ingest_excel_file L E c f rq) =
     (case snd (ingest_try L E c f rq) of
        Inl e \<Rightarrow> failure_response E f e
      | Inr (resp, entry) \<Rightarrow> resp)"
  by (simp add: ingest_excel_file_def case_prod_unfold split: sum.splits)

lemma store_calls_of_try:
  "store_calls (ingest_excel_file L E c f rq) = fst (ingest_try L E c f rq)"
  by (simp add: ingest_excel_file_def case_prod_unfold split: sum.splits)

lemma parse_failure_outcome:
  assumes "parse_excel_file L c f None = Inl e"
  shows "fst (compute_outcome L E c f rq) = []"
    and "\<exists>e'. snd (compute_outcome L E c f rq) = Inl e'"
    and "policy_repository_error E = None \<Longrightarrow> audit_repository_error E 0 = None \<Longrightarrow>
           snd (compute_outcome L E c f rq) = Inl e"
  using assms by (simp_all add: compute_outcome_def split: option.splits)

lemma try_of_outcome_Inl:
  "snd (compute_outcome L E c f rq) = Inl e \<Longrightarrow> snd (ingest_try L E c f rq) = Inl e"
  by (simp add: ingest_try_def case_prod_unfold)

lemma try_calls: "fst (ingest_try L E c f rq) = fst (compute_outcome L E c f rq)"
  by (simp add: ingest_try_def case_prod_unfold)

lemma read_failure_parse:
  "read_excel L c = Inl e \<Longrightarrow> parse_excel_file L c f m = Inl (py ''Excel parsing failed: '' @ e)"
  by (simp add: parse_excel_file_def parse_excel_body_def)

lemma missing_parse:
  assumes "read_excel L c = Inr df"
    and "validate_required_columns (create_column_mapping L (map (\<lambda>h. py_upper L (strip h)) (columns df))
           (case m of None \<Rightarrow> default_mapping | Some m' \<Rightarrow> m')) \<noteq> []"
  shows "parse_excel_file L c f m = Inl (py ''Excel parsing failed: Missing required columns: ''
      @ repr_list (validate_required_columns (create_column_mapping L
           (map (\<lambda>h. py_upper L (strip h)) (columns df))
           (case m of None \<Rightarrow> default_mapping | Some m' \<Rightarrow> m'))))"
  using assms by (simp add: parse_excel_file_def parse_excel_body_def Let_def rename_columns_def py_def)

text \<open>
  C4. \<open>ingest_excel_file\<close> returns a report for every input and every behaviour of the
  library, the store and the audit trail: whatever the body of its \<open>try\<close> raises becomes a
  report with status \<open>failed\<close> whose only error is the text of the exception, and whatever it
  returns is the report. When reading the file fails, or required columns are missing,
  nothing is handed to the store and the report is \<open>failed\<close> with zero processed rows.
\<close>

theorem ingest_always_reports:
  "(snd (ingest_try L E c f rq) = Inl e \<longrightarrow>
      response (ingest_excel_file L E c f rq) =
        \<lparr>ingestion_id = py ''00000000-0000-0000-0000-000000000000'',
         filename = f, total_rows = 0, processed_rows = 0, failed_rows = 0,
         processing_time_ms = elapsed_ms E, status = py ''failed'', errors = [e], warnings = []\<rparr>)
   \<and> (snd (ingest_try L E c f rq) = Inr (resp, entry) \<longrightarrow>
      response (ingest_excel_file L E c f rq) = resp)
   \<and> (read_excel L c = Inl e \<longrightarrow>
        store_calls (ingest_excel_file L E c f rq) = []
      \<and> status (response (ingest_excel_file L E c f rq)) = py ''failed''
      \<and> processed_rows (response (ingest_excel_file L E c f rq)) = 0
      \<and> (policy_repository_error E = None \<and> audit_repository_error E 0 = None \<longrightarrow>
           errors (response (ingest_excel_file L E c f rq)) = [py ''Excel parsing failed: '' @ e]))
   \<and> (read_excel L c = Inr df
        \<and> validate_required_columns (create_column_mapping L
             (map (\<lambda>h. py_upper L (strip h)) (columns df)) default_mapping) \<noteq> [] \<longrightarrow>
        store_calls (ingest_excel_file L E c f rq) = []
      \<and> status (response (ingest_excel_file L E c f rq)) = py ''failed''
      \<and> processed_rows (response (ingest_excel_file L E c f rq)) = 0)"
proof (intro conjI impI)
  assume "snd (ingest_try L E c f rq) = Inl e"
  then show "response (ingest_excel_file L E c f rq) =
        \<lparr>ingestion_id = py ''00000000-0000-0000-0000-000000000000'',
         filename = f, total_rows = 0, processed_rows = 0, failed_rows = 0,
         processing_time_ms = elapsed_ms E, status = py ''failed'', errors = [e], warnings = []\<rparr>"
    by (simp add: response_of_try failure_response_def)
next
  assume "snd (ingest_try L E c f rq) = Inr (resp, entry)"
  then show "response (ingest_excel_file L E c f rq) = resp"
    by (simp add: response_of_try)
next
  assume rd: "read_excel L c = Inl e"
  note p = read_failure_parse [OF rd, of f None]
  from parse_failure_outcome(2) [OF p] obtain e' where e': "snd (compute_outcome L E c f rq) = Inl e'"
    by blast
  show "store_calls (ingest_excel_file L E c f rq) = []"
    by (simp add: store_calls_of_try try_calls parse_failure_outcome(1) [OF p])
  show "status (response (ingest_excel_file L E c f rq)) = py ''failed''"
    by (simp add: response_of_try try_of_outcome_Inl [OF e'] failure_response_def)
  show "processed_rows (response (ingest_excel_file L E c f rq)) = 0"
    by (simp add: response_of_try try_of_outcome_Inl [OF e'] failure_response_def)
  assume "policy_repository_error E = None \<and> audit_repository_error E 0 = None"
  then have "snd (compute_outcome L E c f rq) = Inl (py ''Excel parsing failed: '' @ e)"
    using parse_failure_outcome(3) [OF p] by simp
  then show "errors (response (ingest_excel_file L E c f rq)) = [py ''Excel parsing failed: '' @ e]"
    by (simp add: response_of_try try_of_outcome_Inl failure_response_def)
next
  assume a: "read_excel L c = Inr df
        \<and> validate_required_columns (create_column_mapping L
             (map (\<lambda>h. py_upper L (strip h)) (columns df)) default_mapping) \<noteq> []"
  then have "\<exists>msg. parse_excel_file L c f None = Inl msg"
    using missing_parse [of L c df None f] by simp
  then obtain msg where p: "parse_excel_file L c f None = Inl msg" by blast
  from parse_failure_outcome(2) [OF p] obtain e' where e': "snd (compute_outcome L E c f rq) = Inl e'"
    by blast
  show "store_calls (ingest_excel_file L E c f rq) = []"
    by (simp add: store_calls_of_try try_calls parse_failure_outcome(1) [OF p])
  show "status (response (ingest_excel_file L E c f rq)) = py ''failed''"
    by (simp add: response_of_try try_of_outcome_Inl [OF e'] failure_response_def)
  show "processed_rows (response (ingest_excel_file L E c f rq)) = 0"
    by (simp add: response_of_try try_of_outcome_Inl [OF e'] failure_response_def)
qed

text \<open>A file that cannot be read, with a store and an audit trail that work.\<close>

theorem ingest_always_reports_witness:
  "read_excel (example_lib no_file) [80, 75] = Inl (py ''File is not a zip file'')
   \<and> response (ingest_excel_file (example_lib no_file) accepting [80, 75] (py ''policies.xlsx'') default_request)
     = \<lparr>ingestion_id = py ''00000000-0000-0000-0000-000000000000'',
         filename = py ''policies.xlsx'', total_rows = 0, processed_rows = 0, failed_rows = 0,
         processing_time_ms = 0, status = py ''failed'',
         errors = [py ''Excel parsing failed: File is not a zip file''], warnings = []\<rparr>
   \<and> store_calls (ingest_excel_file (example_lib no_file) accepting [80, 75] (py ''policies.xlsx'') default_request) = []"
proof -
  have rd: "read_excel (example_lib no_file) [80, 75] = Inl (py ''File is not a zip file'')"
    by (simp add: example_lib_def no_file_def)
  have body: "snd (ingest_try (example_lib no_file) accepting [80, 75] (py ''policies.xlsx'') default_request)
      = Inl (py ''Excel parsing failed: File is not a zip file'')"
    by (simp add: ingest_try_def compute_outcome_def accepting_def read_failure_parse [OF rd] py_def)
  have el: "elapsed_ms accepting = 0"
    by (simp add: accepting_def)
  have r1: "response (ingest_excel_file (example_lib no_file) accepting [80, 75] (py ''policies.xlsx'') default_request)
     = \<lparr>ingestion_id = py ''00000000-0000-0000-0000-000000000000'',
         filename = py ''policies.xlsx'', total_rows = 0, processed_rows = 0, failed_rows = 0,
         processing_time_ms = 0, status = py ''failed'',
         errors = [py ''Excel parsing failed: File is not a zip file''], warnings = []\<rparr>"
    using ingest_always_reports [where L = "example_lib no_file" and E = accepting and c = "[80, 75]"
        and f = "py ''policies.xlsx''" and rq = default_request
        and e = "py ''Excel parsing failed: File is not a zip file''", THEN conjunct1] body
    by (simp add: el)
  have r2: "store_calls (ingest_excel_file (example_lib no_file) accepting [80, 75] (py ''policies.xlsx'') default_request) = []"
    using ingest_always_reports [where L = "example_lib no_file" and E = accepting and c = "[80, 75]"
        and f = "py ''policies.xlsx''" and rq = default_request
        and e = "py ''File is not a zip file''", THEN conjunct2, THEN conjunct2, THEN conjunct1] rd
    by simp
  from rd r1 r2 show ?thesis
    by simp
qed

section \<open>Required columns\<close>

lemma missing_iff:
  "validate_required_columns cm \<noteq> [] \<longleftrightarrow>
     (\<exists>field \<in> set required_fields. field \<notin> snd ` set cm)
     \<or> (py ''period_of_insurance'' \<notin> snd ` set cm
        \<and> \<not> (py ''insurance_period_start_date'' \<in> snd ` set cm
             \<and> py ''insurance_period_end_date'' \<in> snd ` set cm))"
  by (auto simp: validate_required_columns_def Let_def filter_empty_conv)

lemma complete_parse:
  assumes "read_excel L c = Inr df"
    and "validate_required_columns (create_column_mapping L (map (\<lambda>h. py_upper L (strip h)) (columns df))
           (case m of None \<Rightarrow> default_mapping | Some m' \<Rightarrow> m')) = []"
  shows "parse_excel_file L c f m =
     Inr (let cm = create_column_mapping L (map (\<lambda>h. py_upper L (strip h)) (columns df))
                     (case m of None \<Rightarrow> default_mapping | Some m' \<Rightarrow> m');
              renamed = rename_columns (rename_label cm) (rename_columns (\<lambda>h. py_upper L (strip h)) df);
              cleaned = clean_and_validate_data L renamed;
              transformed =
                (if py ''period_of_insurance'' \<in> set (columns (fst cleaned))
                 then transform_period_column L (fst cleaned) else (fst cleaned, []))
          in (dropna [py ''policy_number'', py ''insured_name''] (fst transformed),
              snd cleaned @ snd transformed))"
  using assms
  by (simp add: parse_excel_file_def parse_excel_body_def Let_def rename_columns_def case_prod_unfold)

text \<open>
  C8. With \<open>cm\<close> the column mapping of the sheet that was read: if one of the ten required
  fields is not mapped, or neither the combined period field nor both the start and the end
  date field are mapped, \<open>parse_excel_file\<close> raises, with a text that depends on the headers
  only; otherwise it returns the rows cleaned, their period transformed, and filtered.
\<close>

theorem missing_columns_fail_fast:
  assumes "read_excel L file_content = Inr df"
    and "cm = create_column_mapping L (map (\<lambda>h. py_upper L (strip h)) (columns df))
           (case mapping of None \<Rightarrow> default_mapping | Some m \<Rightarrow> m)"
  shows "if (\<exists>field \<in> set required_fields. field \<notin> snd ` set cm)
            \<or> (py ''period_of_insurance'' \<notin> snd ` set cm
               \<and> \<not> (py ''insurance_period_start_date'' \<in> snd ` set cm
                    \<and> py ''insurance_period_end_date'' \<in> snd ` set cm))
         then parse_excel_file L file_content fname mapping =
                Inl (py ''Excel parsing failed: Missing required columns: ''
                     @ repr_list (validate_required_columns cm))
         else parse_excel_file L file_content fname mapping =
                Inr (let renamed = rename_columns (rename_label cm)
                                     (rename_columns (\<lambda>h. py_upper L (strip h)) df);
                         cleaned = clean_and_validate_data L renamed;
                         transformed =
                           (if py ''period_of_insurance'' \<in> set (columns (fst cleaned))
                            then transform_period_column L (fst cleaned) else (fst cleaned, []))
                     in (dropna [py ''policy_number'', py ''insured_name''] (fst transformed),
                         snd cleaned @ snd transformed))"
proof (cases "validate_required_columns cm = []")
  case True
  with assms show ?thesis
    using complete_parse [of L file_content df mapping fname] missing_iff [of cm]
    by (simp add: Let_def)
next
  case False
  with assms show ?thesis
    using missing_parse [of L file_content df mapping fname] missing_iff [of cm]
    by simp
qed

lemma no_match: "find_best_column_match L [] names = None"
  by (induction names) (simp_all add: Let_def)

lemma empty_mapping:
  "create_column_mapping L [] m = []"
  by (simp add: create_column_mapping_def mapping_rules_def no_match)

text \<open>The empty sheet: nothing is mapped, and all required columns are reported.\<close>

theorem missing_columns_fail_fast_witness:
  "read_excel (example_lib (\<lambda>c. Inr empty_sheet)) [80, 75] = Inr empty_sheet
   \<and> create_column_mapping (example_lib (\<lambda>c. Inr empty_sheet))
        (map (\<lambda>h. py_upper (example_lib (\<lambda>c. Inr empty_sheet)) (strip h)) (columns empty_sheet))
        default_mapping = []
   \<and> parse_excel_file (example_lib (\<lambda>c. Inr empty_sheet)) [80, 75] (py ''policies.xlsx'') None
     = Inl (py ''Excel parsing failed: Missing required columns: ''
            @ repr_list (required_fields @ [py ''insurance period dates'']))"
proof -
  let ?L = "example_lib (\<lambda>c. Inr empty_sheet)"
  have rd: "read_excel ?L [80, 75] = Inr empty_sheet"
    by (simp add: example_lib_def)
  have cm: "[] = create_column_mapping ?L (map (\<lambda>h. py_upper ?L (strip h)) (columns empty_sheet))
      (case None of None \<Rightarrow> default_mapping | Some m \<Rightarrow> m)"
    by (simp add: empty_sheet_def empty_mapping)
  have missing: "validate_required_columns [] = required_fields @ [py ''insurance period dates'']"
    by (simp add: validate_required_columns_def)
  have some: "\<exists>field \<in> set required_fields. field \<notin> snd ` set ([] :: (pystr \<times> pystr) list)"
    by (auto simp: required_fields_def)
  have res: "parse_excel_file ?L [80, 75] (py ''policies.xlsx'') None
     = Inl (py ''Excel parsing failed: Missing required columns: ''
            @ repr_list (required_fields @ [py ''insurance period dates'']))"
    using missing_columns_fail_fast [OF rd cm, of "py ''policies.xlsx''"] some
    by (simp add: missing)
  have m0: "create_column_mapping ?L (map (\<lambda>h. py_upper ?L (strip h)) (columns empty_sheet))
        default_mapping = []"
    by (simp add: empty_sheet_def empty_mapping)
  from rd m0 res show ?thesis
    by (simp only: simp_thms)
qed

end
